theory Spec2Isabelle
  imports Complex_Main "HOL-Library.Log_Nat"
begin

section \<open>Shapes of the geometry kernel\<close>

text \<open>
  The converter (\<^verbatim>\<open>cpp/src/converter.cpp\<close>) works on handles of an external geometry
  kernel. The model keeps of a shape what the converter asks of it: its type
  (\<^verbatim>\<open>ShapeType()\<close>), for an edge the curve with its parameter range
  (\<^verbatim>\<open>BRep_Tool::Curve(edge, first, last)\<close>, absent for a null curve handle), and its
  immediate components in the order of \<^verbatim>\<open>TopoDS_Iterator\<close>. A null
  \<^verbatim>\<open>TopoDS_Shape\<close> is \<open>None\<close> of \<open>TopoDS_Shape option\<close>.

  A \<^verbatim>\<open>double\<close> is modelled by the exact rational it denotes, or one of the three special
  values; rounding to 53 bits and the sign of zero are not modelled.
\<close>

datatype double = Fin rat | PosInf | NegInf | NaN

type_synonym gp_Pnt = "double \<times> double \<times> double"

datatype TopAbs_ShapeEnum =
    TopAbs_COMPOUND | TopAbs_COMPSOLID | TopAbs_SOLID | TopAbs_SHELL | TopAbs_FACE
  | TopAbs_WIRE | TopAbs_EDGE | TopAbs_VERTEX | TopAbs_SHAPE

datatype Geom_Curve =
    Geom_Line gp_Pnt gp_Pnt
  | Geom_Circle gp_Pnt gp_Pnt double
  | Geom_TrimmedCurve Geom_Curve double double
  | Geom_OtherCurve nat

datatype TopoDS_Shape =
  Shape (ShapeType: TopAbs_ShapeEnum)
        (edgeCurve: "(Geom_Curve \<times> double \<times> double) option")
        (subShapes: "TopoDS_Shape list")

section \<open>Scene-graph extraction\<close>

subsection \<open>The document: labels and the two tools\<close>

text \<open>
  A \<^verbatim>\<open>TDF_Label\<close> owns its child labels, so the label hierarchy is a finite tree; the
  name attribute (\<^verbatim>\<open>TDataStd_Name\<close>, already as UTF-8) is read from the label itself.
  Everything else is asked of the shape tool and the colour tool, which are external:
  they are records of query functions. A reference (\<^verbatim>\<open>IsReference\<close>,
  \<^verbatim>\<open>GetReferredShape\<close>) points anywhere in the document, so chains of references are
  not known to end. A colour is kept as the text \<^verbatim>\<open>Quantity_Color::ColorToHex\<close> gives.
\<close>

datatype TDF_Label =
  Label (Tag: nat) (nameAttribute: "string option") (childLabels: "TDF_Label list")

datatype XCAFDoc_ColorType = XCAFDoc_ColorGen | XCAFDoc_ColorSurf | XCAFDoc_ColorCurv

record XCAFDoc_ShapeTool =
  GetShape :: "TDF_Label \<Rightarrow> TopoDS_Shape option"
  IsFree :: "TDF_Label \<Rightarrow> bool"
  IsSubShape :: "TDF_Label \<Rightarrow> bool"
  GetReferredShape :: "TDF_Label \<Rightarrow> TDF_Label option"
  Search :: "TopoDS_Shape \<Rightarrow> TDF_Label option"
  mainLabel :: TDF_Label

record XCAFDoc_ColorTool =
  GetColor :: "TDF_Label \<Rightarrow> XCAFDoc_ColorType \<Rightarrow> string option"

datatype ShapeNode =
  ShapeNode (shape: "TopoDS_Shape option") (color: "string option")
            (children: "ShapeNode list") (name: string)

definition HasChild :: "TDF_Label \<Rightarrow> bool" where
  "HasChild label = (childLabels label \<noteq> [])"

definition IsReference :: "XCAFDoc_ShapeTool \<Rightarrow> TDF_Label \<Rightarrow> bool" where
  "IsReference shapeTool label = (GetReferredShape shapeTool label \<noteq> None)"

subsection \<open>Attribute resolution\<close>

definition getLabelNameNoRef :: "TDF_Label \<Rightarrow> string" where
  "getLabelNameNoRef label =
     (case nameAttribute label of None \<Rightarrow> [] | Some nameBuf \<Rightarrow> nameBuf)"

text \<open>
  \<open>None\<close> of the outer option is a call that does not return: the recursion follows the
  reference of a label for as long as the label met is a reference.
\<close>

partial_function (option) getLabelName :: "XCAFDoc_ShapeTool \<Rightarrow> TDF_Label \<Rightarrow> string option" where
  "getLabelName shapeTool label =
     (case GetReferredShape shapeTool label of
        Some referredShapeLabel \<Rightarrow> getLabelName shapeTool referredShapeLabel
      | None \<Rightarrow> Some (getLabelNameNoRef label))"

declare getLabelName.simps [code]

definition getShapeName :: "XCAFDoc_ShapeTool \<Rightarrow> TopoDS_Shape \<Rightarrow> string option" where
  "getShapeName shapeTool s =
     (case Search shapeTool s of
        None \<Rightarrow> Some []
      | Some shapeLabel \<Rightarrow> getLabelName shapeTool shapeLabel)"

definition colorTypes :: "XCAFDoc_ColorType list" where
  "colorTypes = [XCAFDoc_ColorSurf, XCAFDoc_ColorCurv, XCAFDoc_ColorGen]"

text \<open>
  The functions with a \<^verbatim>\<open>bool\<close> result and a \<^verbatim>\<open>std::string& color\<close> parameter return
  \<open>Some c\<close> for \<^verbatim>\<open>true\<close> with \<open>c\<close> stored in \<^verbatim>\<open>color\<close>, and \<open>None\<close> for \<^verbatim>\<open>false\<close>,
  which leaves \<^verbatim>\<open>color\<close> as it was.
\<close>

fun getLabelColorNoRef_loop ::
  "XCAFDoc_ColorTool \<Rightarrow> TDF_Label \<Rightarrow> XCAFDoc_ColorType list \<Rightarrow> string option" where
  "getLabelColorNoRef_loop colorTool label [] = None"
| "getLabelColorNoRef_loop colorTool label (colorType # rest) =
     (case GetColor colorTool label colorType of
        Some qColor \<Rightarrow> Some qColor
      | None \<Rightarrow> getLabelColorNoRef_loop colorTool label rest)"

definition getLabelColorNoRef :: "XCAFDoc_ColorTool \<Rightarrow> TDF_Label \<Rightarrow> string option" where
  "getLabelColorNoRef colorTool label = getLabelColorNoRef_loop colorTool label colorTypes"

partial_function (option) getLabelColor ::
  "XCAFDoc_ShapeTool \<Rightarrow> XCAFDoc_ColorTool \<Rightarrow> TDF_Label \<Rightarrow> string option option" where
  "getLabelColor shapeTool colorTool label =
     (case getLabelColorNoRef colorTool label of
        Some c \<Rightarrow> Some (Some c)
      | None \<Rightarrow>
          (case GetReferredShape shapeTool label of
             Some referredShape \<Rightarrow> getLabelColor shapeTool colorTool referredShape
           | None \<Rightarrow> Some None))"

declare getLabelColor.simps [code]

definition getShapeColor ::
  "XCAFDoc_ShapeTool \<Rightarrow> XCAFDoc_ColorTool \<Rightarrow> TopoDS_Shape \<Rightarrow> string option option" where
  "getShapeColor shapeTool colorTool s =
     (case Search shapeTool s of
        None \<Rightarrow> Some None
      | Some shapeLabel \<Rightarrow> getLabelColor shapeTool colorTool shapeLabel)"

subsection \<open>Label classification\<close>

definition isFreeShape :: "XCAFDoc_ShapeTool \<Rightarrow> TDF_Label \<Rightarrow> bool" where
  "isFreeShape shapeTool label = (GetShape shapeTool label \<noteq> None \<and> IsFree shapeTool label)"

fun hasSubShapeChild :: "XCAFDoc_ShapeTool \<Rightarrow> TDF_Label list \<Rightarrow> bool" where
  "hasSubShapeChild shapeTool [] = False"
| "hasSubShapeChild shapeTool (childLabel # rest) =
     (if IsSubShape shapeTool childLabel then True else hasSubShapeChild shapeTool rest)"

fun hasFreeShapeChild :: "XCAFDoc_ShapeTool \<Rightarrow> TDF_Label list \<Rightarrow> bool" where
  "hasFreeShapeChild shapeTool [] = False"
| "hasFreeShapeChild shapeTool (childLabel # rest) =
     (if isFreeShape shapeTool childLabel then True else hasFreeShapeChild shapeTool rest)"

definition isMeshNode :: "XCAFDoc_ShapeTool \<Rightarrow> TDF_Label \<Rightarrow> bool" where
  "isMeshNode shapeTool label =
     (if \<not> HasChild label then True
      else if hasSubShapeChild shapeTool (childLabels label) then True
      else if \<not> hasFreeShapeChild shapeTool (childLabels label) then True
      else False)"

subsection \<open>Building the tree\<close>

text \<open>
  \<^verbatim>\<open>initLabelNode\<close> and \<^verbatim>\<open>initShapeNode\<close> declare an empty \<^verbatim>\<open>std::string color\<close>, call the
  colour resolution without reading its result, and store the string in the node's
  \<^verbatim>\<open>std::optional<std::string>\<close> field.
\<close>

definition colorOrEmpty :: "string option \<Rightarrow> string" where
  "colorOrEmpty found = (case found of None \<Rightarrow> [] | Some c \<Rightarrow> c)"

definition initLabelNode ::
  "XCAFDoc_ShapeTool \<Rightarrow> XCAFDoc_ColorTool \<Rightarrow> TDF_Label \<Rightarrow> ShapeNode option" where
  "initLabelNode shapeTool colorTool label =
     (case getLabelColor shapeTool colorTool label of
        None \<Rightarrow> None
      | Some found \<Rightarrow>
          (case getLabelName shapeTool label of
             None \<Rightarrow> None
           | Some nm \<Rightarrow> Some (ShapeNode None (Some (colorOrEmpty found)) [] nm)))"

definition initShapeNode ::
  "XCAFDoc_ShapeTool \<Rightarrow> XCAFDoc_ColorTool \<Rightarrow> TopoDS_Shape \<Rightarrow> ShapeNode option" where
  "initShapeNode shapeTool colorTool s =
     (case getShapeColor shapeTool colorTool s of
        None \<Rightarrow> None
      | Some found \<Rightarrow>
          (case getShapeName shapeTool s of
             None \<Rightarrow> None
           | Some nm \<Rightarrow> Some (ShapeNode (Some s) (Some (colorOrEmpty found)) [] nm)))"

definition initGroupNode :: "XCAFDoc_ShapeTool \<Rightarrow> TopoDS_Shape \<Rightarrow> ShapeNode option" where
  "initGroupNode shapeTool s =
     (case getShapeName shapeTool s of
        None \<Rightarrow> None
      | Some nm \<Rightarrow> Some (ShapeNode None None [] nm))"

definition push_back_all :: "ShapeNode \<Rightarrow> ShapeNode list \<Rightarrow> ShapeNode" where
  "push_back_all node childNodes =
     ShapeNode (shape node) (color node) (children node @ childNodes) (name node)"

fun parseShape ::
  "XCAFDoc_ShapeTool \<Rightarrow> XCAFDoc_ColorTool \<Rightarrow> TopoDS_Shape \<Rightarrow> ShapeNode option" where
  "parseShape shapeTool colorTool (Shape ty crv subs) =
     (if ty = TopAbs_COMPOUND \<or> ty = TopAbs_COMPSOLID then
        (case initGroupNode shapeTool (Shape ty crv subs) of
           None \<Rightarrow> None
         | Some node \<Rightarrow>
             (case those (map (parseShape shapeTool colorTool) subs) of
                None \<Rightarrow> None
              | Some childNodes \<Rightarrow> Some (push_back_all node childNodes)))
      else initShapeNode shapeTool colorTool (Shape ty crv subs))"

text \<open>
  In \<^verbatim>\<open>parseLabelToNode\<close> a mesh-node label without a shape hands a null shape to
  \<^verbatim>\<open>parseShape\<close>, whose \<^verbatim>\<open>ShapeType()\<close> has no result on it: the call returns no node.
\<close>

fun parseLabelToNode ::
  "XCAFDoc_ShapeTool \<Rightarrow> XCAFDoc_ColorTool \<Rightarrow> TDF_Label \<Rightarrow> ShapeNode option" where
  "parseLabelToNode shapeTool colorTool (Label tg nm kids) =
     (if isMeshNode shapeTool (Label tg nm kids) then
        (case GetShape shapeTool (Label tg nm kids) of
           None \<Rightarrow> None
         | Some s \<Rightarrow> parseShape shapeTool colorTool s)
      else
        (case initLabelNode shapeTool colorTool (Label tg nm kids) of
           None \<Rightarrow> None
         | Some node \<Rightarrow>
             (case those (map (parseLabelToNode shapeTool colorTool)
                           (filter (isFreeShape shapeTool) kids)) of
                None \<Rightarrow> None
              | Some childNodes \<Rightarrow> Some (push_back_all node childNodes))))"

definition parseRootLabelToNode ::
  "XCAFDoc_ShapeTool \<Rightarrow> XCAFDoc_ColorTool \<Rightarrow> ShapeNode option" where
  "parseRootLabelToNode shapeTool colorTool =
     (let label = mainLabel shapeTool in
      case initLabelNode shapeTool colorTool label of
        None \<Rightarrow> None
      | Some node \<Rightarrow>
          (case those (map (parseLabelToNode shapeTool colorTool)
                        (filter (isFreeShape shapeTool) (childLabels label))) of
             None \<Rightarrow> None
           | Some childNodes \<Rightarrow> Some (push_back_all node childNodes)))"

fun nodes :: "ShapeNode \<Rightarrow> ShapeNode list" where
  "nodes (ShapeNode s c kids nm) = ShapeNode s c kids nm # concat (map nodes kids)"

section \<open>The standard library, as far as the converter uses it\<close>

text \<open>
  An exception that leaves a function is a value \<open>Inl e\<close> of its result. The two
  exceptions of the numeric conversions are those of \<^verbatim>\<open>std::stoi\<close> and \<^verbatim>\<open>std::stod\<close>;
  every failure the geometry kernel reports is a \<^verbatim>\<open>Standard_Failure\<close>.
\<close>

datatype exn = invalid_argument | out_of_range | Standard_Failure string

definition bindE :: "exn + 'a \<Rightarrow> ('a \<Rightarrow> exn + 'b) \<Rightarrow> exn + 'b" where
  "bindE r f = (case r of Inl e \<Rightarrow> Inl e | Inr v \<Rightarrow> f v)"

definition isspace :: "char \<Rightarrow> bool" where
  "isspace c = (c \<in> set [CHR '' '', CHR 0x09, CHR 0x0A, CHR 0x0B, CHR 0x0C, CHR 0x0D])"

definition isdigit :: "char \<Rightarrow> bool" where
  "isdigit c = (c \<in> set ''0123456789'')"

definition isxdigit :: "char \<Rightarrow> bool" where
  "isxdigit c = (c \<in> set ''0123456789abcdefABCDEF'')"

definition digitValue :: "char \<Rightarrow> nat" where
  "digitValue c =
     (if isdigit c then of_char c - 48
      else if c \<in> set ''abcdef'' then of_char c - 87
      else of_char c - 55)"

definition digitsValue :: "nat \<Rightarrow> string \<Rightarrow> nat" where
  "digitsValue base ds = foldl (\<lambda>acc c. base * acc + digitValue c) 0 ds"

definition skipSign :: "string \<Rightarrow> bool \<times> string" where
  "skipSign s =
     (case s of
        [] \<Rightarrow> (False, [])
      | c # cs \<Rightarrow> if c = CHR ''-'' then (True, cs)
                 else if c = CHR ''+'' then (False, cs) else (False, s))"

text \<open>
  \<^verbatim>\<open>std::stoi\<close> (base 10): leading white space, an optional sign, then the longest run
  of digits; \<^verbatim>\<open>invalid_argument\<close> when there is no digit, \<^verbatim>\<open>out_of_range\<close> when the
  value is no \<^verbatim>\<open>int\<close> (32 bits). What follows the digits is ignored.
\<close>

definition stoi :: "string \<Rightarrow> exn + int" where
  "stoi str =
     (let (negative, rest) = skipSign (dropWhile isspace str);
          ds = takeWhile isdigit rest
      in if ds = [] then Inl invalid_argument
         else let v = (if negative then - int (digitsValue 10 ds) else int (digitsValue 10 ds))
              in if v < - 2147483648 \<or> 2147483647 < v then Inl out_of_range else Inr v)"

definition tolower :: "char \<Rightarrow> char" where
  "tolower c =
     (case map_of (zip ''ABCDEFGHIJKLMNOPQRSTUVWXYZ'' ''abcdefghijklmnopqrstuvwxyz'') c of
        Some l \<Rightarrow> l
      | None \<Rightarrow> c)"

definition startsWith :: "string \<Rightarrow> string \<Rightarrow> bool" where
  "startsWith p s = (take (length p) (map tolower s) = p)"

definition exponentPart :: "string \<Rightarrow> string \<Rightarrow> int" where
  "exponentPart markers s =
     (case s of
        [] \<Rightarrow> 0
      | c # cs \<Rightarrow>
          if c \<in> set markers then
            (let (negative, rest) = skipSign cs; ds = takeWhile isdigit rest
             in if ds = [] then 0
                else if negative then - int (digitsValue 10 ds) else int (digitsValue 10 ds))
          else 0)"

definition scaleBy :: "rat \<Rightarrow> int \<Rightarrow> rat \<Rightarrow> rat" where
  "scaleBy base e m = (if 0 \<le> e then m * base ^ nat e else m / base ^ nat (- e))"

definition fractionDigits :: "(char \<Rightarrow> bool) \<Rightarrow> string \<Rightarrow> string" where
  "fractionDigits isd s =
     (case s of [] \<Rightarrow> [] | c # cs \<Rightarrow> if c = CHR ''.'' then takeWhile isd cs else [])"

definition afterMantissa :: "(char \<Rightarrow> bool) \<Rightarrow> string \<Rightarrow> string" where
  "afterMantissa isd s =
     (case s of [] \<Rightarrow> [] | c # cs \<Rightarrow> if c = CHR ''.'' then dropWhile isd cs else s)"

definition rangeChecked :: "rat \<Rightarrow> exn + double" where
  "rangeChecked v =
     (if 2 ^ 1024 - 2 ^ 970 \<le> \<bar>v\<bar> then Inl out_of_range
      else if v \<noteq> 0 \<and> \<bar>v\<bar> < 1 / 2 ^ 1022 \<and> of_int \<lfloor>v * 2 ^ 1074\<rfloor> \<noteq> v * 2 ^ 1074
        then Inl out_of_range
      else Inr (Fin v))"

text \<open>
  \<^verbatim>\<open>std::stod\<close>: leading white space, an optional sign, then \<^verbatim>\<open>inf\<close> or \<^verbatim>\<open>nan\<close> (in
  any case), a hexadecimal literal, or a decimal literal with an optional exponent;
  \<^verbatim>\<open>invalid_argument\<close> when none of them starts there, \<^verbatim>\<open>out_of_range\<close> for a value
  beyond the finite doubles or lost below the smallest normal one. What follows the
  literal is ignored. The value is the exact value of the literal.
\<close>

definition stod :: "string \<Rightarrow> exn + double" where
  "stod str =
     (let (negative, s) = skipSign (dropWhile isspace str);
          sgn = (\<lambda>v::rat. if negative then - v else v)
      in if startsWith ''inf'' s then Inr (if negative then NegInf else PosInf)
         else if startsWith ''nan'' s then Inr NaN
         else
           let hx = drop 2 s;
               hexInt = takeWhile isxdigit hx;
               hexFrac = fractionDigits isxdigit (dropWhile isxdigit hx)
           in if startsWith ''0x'' s \<and> (hexInt \<noteq> [] \<or> hexFrac \<noteq> []) then
                rangeChecked (sgn (scaleBy 2
                  (exponentPart ''pP'' (afterMantissa isxdigit (dropWhile isxdigit hx))
                     - 4 * int (length hexFrac))
                  (of_nat (digitsValue 16 (hexInt @ hexFrac)))))
              else
                let decInt = takeWhile isdigit s;
                    decFrac = fractionDigits isdigit (dropWhile isdigit s)
                in if decInt = [] \<and> decFrac = [] then Inl invalid_argument
                   else rangeChecked (sgn (scaleBy 10
                     (exponentPart ''eE'' (afterMantissa isdigit (dropWhile isdigit s))
                        - int (length decFrac))
                     (of_nat (digitsValue 10 (decInt @ decFrac))))))"

text \<open>\<^verbatim>\<open>std::to_string\<close> and \<^verbatim>\<open>operator<<\<close> of a \<^verbatim>\<open>size_t\<close>: the decimal digits.\<close>

fun to_string :: "nat \<Rightarrow> string" where
  "to_string n =
     (if n < 10 then [''0123456789'' ! n]
      else to_string (n div 10) @ [''0123456789'' ! (n mod 10)])"

declare to_string.simps [simp del]

text \<open>
  \<^verbatim>\<open>operator<<\<close> of a \<^verbatim>\<open>double\<close> on a stream in its default state: six significant
  digits, fixed notation for a decimal exponent from \<open>-4\<close> to \<open>5\<close> and scientific
  notation otherwise, trailing zeros dropped.
\<close>

definition zeroPadded :: "nat \<Rightarrow> nat \<Rightarrow> string" where
  "zeroPadded width n = replicate (width - length (to_string n)) (CHR ''0'') @ to_string n"

definition stripZeros :: "string \<Rightarrow> string" where
  "stripZeros ds = rev (dropWhile (\<lambda>c. c = CHR ''0'') (rev ds))"

definition withFraction :: "string \<Rightarrow> string \<Rightarrow> string" where
  "withFraction whole fraction =
     (if stripZeros fraction = [] then whole else whole @ ''.'' @ stripZeros fraction)"

definition roundHalfEven :: "rat \<Rightarrow> nat" where
  "roundHalfEven x =
     (let f = \<lfloor>x\<rfloor>; d = x - of_int f
      in nat (if d < 1 / 2 then f else if 1 / 2 < d then f + 1 else if even f then f else f + 1))"

definition decimalExponent :: "rat \<Rightarrow> int" where
  "decimalExponent a =
     (if 1 \<le> a then int (floorlog 10 (nat \<lfloor>a\<rfloor>)) - 1
      else - int (floorlog 10 (nat (\<lceil>1 / a\<rceil> - 1))))"

definition show_general :: "rat \<Rightarrow> string" where
  "show_general a =
     (let x0 = decimalExponent a;
          m0 = roundHalfEven (scaleBy 10 (5 - x0) a);
          x = (if m0 = 1000000 then x0 + 1 else x0);
          ds = to_string (if m0 = 1000000 then 100000 else m0)
      in if x < - 4 \<or> 6 \<le> x then
           withFraction (take 1 ds) (drop 1 ds) @ ''e'' @ (if x < 0 then ''-'' else ''+'')
             @ zeroPadded 2 (nat \<bar>x\<bar>)
         else if 0 \<le> x then withFraction (take (nat x + 1) ds) (drop (nat x + 1) ds)
         else withFraction ''0'' (replicate (nat (- x) - 1) (CHR ''0'') @ ds))"

definition show_double :: "double \<Rightarrow> string" where
  "show_double d =
     (case d of
        Fin v \<Rightarrow> if v = 0 then ''0'' else if v < 0 then ''-'' @ show_general (- v) else show_general v
      | PosInf \<Rightarrow> ''inf''
      | NegInf \<Rightarrow> ''-inf''
      | NaN \<Rightarrow> ''nan'')"

text \<open>
  \<^verbatim>\<open>M_PI\<close> is the double nearest to \<open>\<pi>\<close>. Products and quotients of doubles are
  taken exactly.
\<close>

definition M_PI :: rat where
  "M_PI = 884279719003555 / 281474976710656"

definition timesRat :: "double \<Rightarrow> rat \<Rightarrow> double" where
  "timesRat d q = (case d of Fin v \<Rightarrow> Fin (v * q) | PosInf \<Rightarrow> PosInf | NegInf \<Rightarrow> NegInf | NaN \<Rightarrow> NaN)"

text \<open>
  \<^verbatim>\<open>std::getline\<close> until it fails: the text between line feeds; a last line without
  a line feed counts when it is not empty.
\<close>

fun getlines :: "string \<Rightarrow> string list" where
  "getlines [] = []"
| "getlines (c # cs) =
     (if c = CHR 0x0A then [] # getlines cs
      else (case getlines cs of [] \<Rightarrow> [[c]] | l # ls \<Rightarrow> (c # l) # ls))"

text \<open>A \<^verbatim>\<open>std::map<int, std::string>\<close>: the pairs in the order of their keys, one per key.\<close>

type_synonym groupMap = "(int \<times> string) list"

fun assign :: "int \<Rightarrow> string \<Rightarrow> groupMap \<Rightarrow> groupMap" where
  "assign k v [] = [(k, v)]"
| "assign k v ((k', v') # m) =
     (if k < k' then (k, v) # (k', v') # m
      else if k = k' then (k, v) # m
      else (k', v') # assign k v m)"

definition find_code :: "int \<Rightarrow> groupMap \<Rightarrow> string option" where
  "find_code k m = map_of m k"

section \<open>The interchange parser\<close>

record DxfEntity =
  entityType :: string
  groupCodes :: groupMap
  entityLayer :: string
  entityColor :: string

definition newEntity :: "string \<Rightarrow> DxfEntity" where
  "newEntity ty = \<lparr> entityType = ty, groupCodes = [], entityLayer = [], entityColor = [] \<rparr>"

definition isTrimmed :: "char \<Rightarrow> bool" where
  "isTrimmed c = (c \<in> set [CHR '' '', CHR 0x09, CHR 0x0D, CHR 0x0A])"

definition trim :: "string \<Rightarrow> string" where
  "trim line = rev (dropWhile isTrimmed (rev (dropWhile isTrimmed line)))"

definition isGroupCodeLine :: "string \<Rightarrow> bool" where
  "isGroupCodeLine line =
     (case line of
        [] \<Rightarrow> False
      | c # cs \<Rightarrow> isdigit c \<or> (c = CHR ''-'' \<and> (case cs of [] \<Rightarrow> False | d # _ \<Rightarrow> isdigit d)))"

definition closeEntity :: "DxfEntity option \<Rightarrow> string \<Rightarrow> DxfEntity list" where
  "closeEntity currentEntity currentLayer =
     (case currentEntity of
        None \<Rightarrow> []
      | Some e \<Rightarrow> [e\<lparr> entityLayer := currentLayer \<rparr>])"

fun parseDxf_loop ::
  "string list \<Rightarrow> DxfEntity list \<Rightarrow> DxfEntity option \<Rightarrow> string \<Rightarrow> exn + DxfEntity list" where
  "parseDxf_loop [] entities currentEntity currentLayer =
     Inr (entities @ closeEntity currentEntity currentLayer)"
| "parseDxf_loop (raw # rest) entities currentEntity currentLayer =
     (let line = trim raw in
      if line = [] then parseDxf_loop rest entities currentEntity currentLayer
      else if isGroupCodeLine line then
        (case stoi line of
           Inl e \<Rightarrow> Inl e
         | Inr groupCode \<Rightarrow>
             (case rest of
                [] \<Rightarrow> parseDxf_loop [] entities currentEntity currentLayer
              | raw2 # rest2 \<Rightarrow>
                  (let val = trim raw2 in
                   if groupCode = 0 then
                     parseDxf_loop rest2 (entities @ closeEntity currentEntity currentLayer)
                       (Some (newEntity val)) currentLayer
                   else
                     (case currentEntity of
                        None \<Rightarrow> parseDxf_loop rest2 entities None currentLayer
                      | Some e \<Rightarrow>
                          parseDxf_loop rest2 entities
                            (Some (e\<lparr> groupCodes := assign groupCode val (groupCodes e),
                                      entityColor := (if groupCode = 62 then val else entityColor e) \<rparr>))
                            (if groupCode = 8 then val else currentLayer)))))
      else parseDxf_loop rest entities currentEntity currentLayer)"

definition parseDxfEntities :: "string \<Rightarrow> exn + DxfEntity list" where
  "parseDxfEntities content = parseDxf_loop (getlines content) [] None ''0''"

section \<open>The geometry reconstructor\<close>

text \<open>
  The builders of the geometry kernel are external. Each field stands for one use the
  converter makes of them and returns the shape built, or the exception the builder
  raises when its result is asked for:
  \<^item> \<open>MakeEdge_Pnt p1 p2\<close>: \<^verbatim>\<open>BRepBuilderAPI_MakeEdge(p1, p2).Edge()\<close>;
  \<^item> \<open>MakeEdge_Circle center radius u1 u2\<close>: a \<^verbatim>\<open>Geom_Circle\<close> of that radius about
    the axis through \<open>center\<close> along \<open>+z\<close>, then
    \<^verbatim>\<open>BRepBuilderAPI_MakeEdge(circle, u1, u2).Edge()\<close>;
  \<^item> \<open>MakeWire edges\<close>: a \<^verbatim>\<open>BRepBuilderAPI_MakeWire\<close>, \<^verbatim>\<open>Add\<close> of each edge in turn,
    then \<^verbatim>\<open>Wire()\<close>;
  \<^item> \<open>MakePolygonFace points closed\<close>: a \<^verbatim>\<open>BRepBuilderAPI_MakePolygon\<close>, \<^verbatim>\<open>Add\<close> of
    each point, \<^verbatim>\<open>Close()\<close> when \<open>closed\<close>, then
    \<^verbatim>\<open>BRepBuilderAPI_MakeFace(polygon.Wire()).Face()\<close>;
  \<^item> \<open>CurveValue c u\<close>: \<^verbatim>\<open>c->Value(u)\<close>;
  \<^item> \<open>WireExplorer w\<close>: the edges of \<^verbatim>\<open>BRepTools_WireExplorer(w)\<close>, in its order.
\<close>

record Kernel =
  MakeEdge_Pnt :: "gp_Pnt \<Rightarrow> gp_Pnt \<Rightarrow> exn + TopoDS_Shape"
  MakeEdge_Circle :: "gp_Pnt \<Rightarrow> double \<Rightarrow> double \<Rightarrow> double \<Rightarrow> exn + TopoDS_Shape"
  MakeWire :: "TopoDS_Shape list \<Rightarrow> exn + TopoDS_Shape"
  MakePolygonFace :: "gp_Pnt list \<Rightarrow> bool \<Rightarrow> exn + TopoDS_Shape"
  CurveValue :: "Geom_Curve \<Rightarrow> double \<Rightarrow> gp_Pnt"
  WireExplorer :: "TopoDS_Shape \<Rightarrow> TopoDS_Shape list"

definition built :: "exn + TopoDS_Shape \<Rightarrow> exn + TopoDS_Shape option" where
  "built r = bindE r (\<lambda>s. Inr (Some s))"

definition createLineFromDxf :: "Kernel \<Rightarrow> DxfEntity \<Rightarrow> exn + TopoDS_Shape option" where
  "createLineFromDxf K entity =
     (case (find_code 10 (groupCodes entity), find_code 20 (groupCodes entity),
            find_code 11 (groupCodes entity), find_code 21 (groupCodes entity)) of
        (Some itX1, Some itY1, Some itX2, Some itY2) \<Rightarrow>
          bindE (stod itX1) (\<lambda>x1.
          bindE (stod itY1) (\<lambda>y1.
          bindE (stod itX2) (\<lambda>x2.
          bindE (stod itY2) (\<lambda>y2.
            built (MakeEdge_Pnt K (x1, y1, Fin 0) (x2, y2, Fin 0))))))
      | _ \<Rightarrow> Inr None)"

definition createCircleFromDxf :: "Kernel \<Rightarrow> DxfEntity \<Rightarrow> exn + TopoDS_Shape option" where
  "createCircleFromDxf K entity =
     (case (find_code 10 (groupCodes entity), find_code 20 (groupCodes entity),
            find_code 40 (groupCodes entity)) of
        (Some itX, Some itY, Some itR) \<Rightarrow>
          bindE (stod itX) (\<lambda>centerX.
          bindE (stod itY) (\<lambda>centerY.
          bindE (stod itR) (\<lambda>radius.
            built (MakeEdge_Circle K (centerX, centerY, Fin 0) radius (Fin 0) (Fin (2 * M_PI))))))
      | _ \<Rightarrow> Inr None)"

definition createArcFromDxf :: "Kernel \<Rightarrow> DxfEntity \<Rightarrow> exn + TopoDS_Shape option" where
  "createArcFromDxf K entity =
     (case (find_code 10 (groupCodes entity), find_code 20 (groupCodes entity),
            find_code 40 (groupCodes entity), find_code 50 (groupCodes entity),
            find_code 51 (groupCodes entity)) of
        (Some itX, Some itY, Some itR, Some itStartAngle, Some itEndAngle) \<Rightarrow>
          bindE (stod itX) (\<lambda>centerX.
          bindE (stod itY) (\<lambda>centerY.
          bindE (stod itR) (\<lambda>radius.
          bindE (stod itStartAngle) (\<lambda>startDegrees.
          bindE (stod itEndAngle) (\<lambda>endDegrees.
            built (MakeEdge_Circle K (centerX, centerY, Fin 0) radius
                     (timesRat startDegrees (M_PI / 180)) (timesRat endDegrees (M_PI / 180))))))))
      | _ \<Rightarrow> Inr None)"

text \<open>
  The loop of \<^verbatim>\<open>createPolylineFromDxf\<close> over the pairs of the entity's map, which
  appends to one of three vectors the \<^verbatim>\<open>std::stoi\<close> of each value under code 10, 20
  or 30.
\<close>

fun collectCodes ::
  "groupMap \<Rightarrow> int list \<Rightarrow> int list \<Rightarrow> int list \<Rightarrow> exn + (int list \<times> int list \<times> int list)" where
  "collectCodes [] xCodes yCodes zCodes = Inr (xCodes, yCodes, zCodes)"
| "collectCodes ((code, text) # rest) xCodes yCodes zCodes =
     (if code = 10 then bindE (stoi text) (\<lambda>v. collectCodes rest (xCodes @ [v]) yCodes zCodes)
      else if code = 20 then bindE (stoi text) (\<lambda>v. collectCodes rest xCodes (yCodes @ [v]) zCodes)
      else if code = 30 then bindE (stoi text) (\<lambda>v. collectCodes rest xCodes yCodes (zCodes @ [v]))
      else collectCodes rest xCodes yCodes zCodes)"

definition pnt_of_ints :: "int \<Rightarrow> int \<Rightarrow> int \<Rightarrow> gp_Pnt" where
  "pnt_of_ints x y z = (Fin (of_int x), Fin (of_int y), Fin (of_int z))"

fun chainEdges :: "Kernel \<Rightarrow> gp_Pnt list \<Rightarrow> exn + TopoDS_Shape list" where
  "chainEdges K (p # q # rest) =
     bindE (MakeEdge_Pnt K p q) (\<lambda>edge.
     bindE (chainEdges K (q # rest)) (\<lambda>edges. Inr (edge # edges)))"
| "chainEdges K rest = Inr []"

definition flagBit :: "nat \<Rightarrow> DxfEntity \<Rightarrow> exn + bool" where
  "flagBit n entity =
     (case find_code 70 (groupCodes entity) of
        None \<Rightarrow> Inr False
      | Some itFlags \<Rightarrow> bindE (stoi itFlags) (\<lambda>flags. Inr (bit flags n)))"

definition createPolylineFromDxf :: "Kernel \<Rightarrow> DxfEntity \<Rightarrow> exn + TopoDS_Shape option" where
  "createPolylineFromDxf K entity =
     bindE (if entityType entity = ''POLYLINE'' then flagBit 3 entity else Inr False) (\<lambda>is3D.
     bindE (collectCodes (groupCodes entity) [] [] []) (\<lambda>(xCodes, yCodes, zCodes).
       let points =
             (if is3D then map (\<lambda>(x, y, z). pnt_of_ints x y z) (zip xCodes (zip yCodes zCodes))
              else map (\<lambda>(x, y). pnt_of_ints x y 0) (zip xCodes yCodes))
       in if 2 \<le> length points then
            bindE (chainEdges K points) (\<lambda>edges.
            bindE (if entityType entity = ''LWPOLYLINE'' \<and> 2 < length points
                   then flagBit 0 entity else Inr False) (\<lambda>isClosed.
            bindE (if isClosed
                   then bindE (MakeEdge_Pnt K (last points) (hd points)) (\<lambda>edge. Inr [edge])
                   else Inr []) (\<lambda>closing.
              built (MakeWire K (edges @ closing)))))
          else Inr None))"

text \<open>
  The loop of \<^verbatim>\<open>create3DFaceFromDxf\<close> over the corners \<open>i = 0, \<dots>, 3\<close>: a corner
  whose three codes \<open>10 + i\<close>, \<open>20 + i\<close>, \<open>30 + i\<close> are all present is appended.
\<close>

fun collectCorners :: "groupMap \<Rightarrow> int list \<Rightarrow> exn + gp_Pnt list" where
  "collectCorners m [] = Inr []"
| "collectCorners m (i # rest) =
     (case (find_code (10 + i) m, find_code (20 + i) m, find_code (30 + i) m) of
        (Some itX, Some itY, Some itZ) \<Rightarrow>
          bindE (stod itX) (\<lambda>x.
          bindE (stod itY) (\<lambda>y.
          bindE (stod itZ) (\<lambda>z.
          bindE (collectCorners m rest) (\<lambda>points. Inr ((x, y, z) # points)))))
      | _ \<Rightarrow> collectCorners m rest)"

definition create3DFaceFromDxf :: "Kernel \<Rightarrow> DxfEntity \<Rightarrow> exn + TopoDS_Shape option" where
  "create3DFaceFromDxf K entity =
     bindE (collectCorners (groupCodes entity) [0, 1, 2, 3]) (\<lambda>points.
       if 3 \<le> length points then
         (if length points = 3 then built (MakePolygonFace K points False)
          else if length points = 4 then built (MakePolygonFace K points True)
          else Inr None)
       else Inr None)"

definition entityShape :: "Kernel \<Rightarrow> DxfEntity \<Rightarrow> exn + TopoDS_Shape option" where
  "entityShape K entity =
     (if entityType entity = ''LINE'' then createLineFromDxf K entity
      else if entityType entity = ''CIRCLE'' then createCircleFromDxf K entity
      else if entityType entity = ''ARC'' then createArcFromDxf K entity
      else if entityType entity = ''POLYLINE'' \<or> entityType entity = ''LWPOLYLINE''
        then createPolylineFromDxf K entity
      else if entityType entity = ''3DFACE'' then create3DFaceFromDxf K entity
      else Inr None)"

text \<open>
  The loop of \<^verbatim>\<open>convertFromDxf\<close> over the entities: the shapes added to the compound
  so far, in order.
\<close>

fun addEntities :: "Kernel \<Rightarrow> DxfEntity list \<Rightarrow> TopoDS_Shape list \<Rightarrow> exn + TopoDS_Shape list" where
  "addEntities K [] compound = Inr compound"
| "addEntities K (entity # rest) compound =
     bindE (entityShape K entity) (\<lambda>s.
       case s of
         None \<Rightarrow> addEntities K rest compound
       | Some sh \<Rightarrow> addEntities K rest (compound @ [sh]))"

section \<open>The entry points that stage their input in a file\<close>

text \<open>
  The file system: the files by name, and which names a file can be created under.
  \<^verbatim>\<open>writeBufferToFile\<close> opens the file for writing and writes the buffer; when the file
  cannot be opened nothing is written. A file can be opened for reading when it is there.
\<close>

record FileSystem =
  files :: "string \<rightharpoonup> string"
  canCreate :: "string \<Rightarrow> bool"

definition writeBufferToFile :: "string \<Rightarrow> string \<Rightarrow> FileSystem \<Rightarrow> FileSystem" where
  "writeBufferToFile fileName buffer fs =
     (if canCreate fs fileName then fs\<lparr> files := (files fs)(fileName \<mapsto> buffer) \<rparr> else fs)"

definition remove :: "string \<Rightarrow> FileSystem \<Rightarrow> FileSystem" where
  "remove fileName fs = fs\<lparr> files := (files fs)(fileName := None) \<rparr>"

definition convertFromDxf ::
  "Kernel \<Rightarrow> string \<Rightarrow> FileSystem \<Rightarrow> FileSystem \<times> (exn + ShapeNode option)" where
  "convertFromDxf K buffer fs0 =
     (let dummyFileName = ''temp.dxf'';
          fs1 = writeBufferToFile dummyFileName buffer fs0
      in case files fs1 dummyFileName of
           None \<Rightarrow> (remove dummyFileName fs1, Inr None)
         | Some content \<Rightarrow>
             (remove dummyFileName fs1,
              bindE (parseDxfEntities content) (\<lambda>entities.
              bindE (addEntities K entities []) (\<lambda>compound.
                Inr (Some (ShapeNode (Some (Shape TopAbs_COMPOUND None compound)) None []
                  (''DXF Import ('' @ to_string (length entities) @ '' entities)'')))))))"

text \<open>
  The readers of the other formats are external: \<open>StlAPI_Read\<close> is the shape
  \<^verbatim>\<open>StlAPI_Reader::Read\<close> reads from a file of the given content (\<open>None\<close>: the file is
  not there), if it succeeds; \<open>IGES_ReadFile\<close> is whether
  \<^verbatim>\<open>IGESCAFControl_Reader::ReadFile\<close> returns \<^verbatim>\<open>IFSelect_RetDone\<close>, and
  \<open>IGES_Transfer\<close> the tools of the document \<^verbatim>\<open>Transfer\<close> fills, if it succeeds.
  The outer option of \<open>convertFromIges\<close> is \<open>None\<close> for a call that does not return.
\<close>

record Readers =
  StlAPI_Read :: "string option \<Rightarrow> TopoDS_Shape option"
  IGES_ReadFile :: "string option \<Rightarrow> bool"
  IGES_Transfer :: "string option \<Rightarrow> (XCAFDoc_ShapeTool \<times> XCAFDoc_ColorTool) option"

definition convertFromStl ::
  "Readers \<Rightarrow> string \<Rightarrow> FileSystem \<Rightarrow> FileSystem \<times> ShapeNode option" where
  "convertFromStl R buffer fs0 =
     (let dummyFileName = ''temp.stl'';
          fs1 = writeBufferToFile dummyFileName buffer fs0
      in case StlAPI_Read R (files fs1 dummyFileName) of
           None \<Rightarrow> (fs1, None)
         | Some s \<Rightarrow> (fs1, Some (ShapeNode (Some s) None [] ''STL Shape'')))"

definition convertFromIges ::
  "Readers \<Rightarrow> string \<Rightarrow> FileSystem \<Rightarrow> FileSystem \<times> ShapeNode option option" where
  "convertFromIges R buffer fs0 =
     (let dummyFileName = ''temp.igs'';
          fs1 = writeBufferToFile dummyFileName buffer fs0
      in if \<not> IGES_ReadFile R (files fs1 dummyFileName) then
           (remove dummyFileName fs1, Some None)
         else
           (case IGES_Transfer R (files fs1 dummyFileName) of
              None \<Rightarrow> (remove dummyFileName fs1, Some None)
            | Some (shapeTool, colorTool) \<Rightarrow>
                (remove dummyFileName fs1,
                 map_option Some (parseRootLabelToNode shapeTool colorTool))))"

section \<open>The interchange writer\<close>

text \<open>
  \<^verbatim>\<open>TopExp_Explorer(shape, TopAbs_EDGE)\<close>: the edges of a shape, depth first, each as
  often as it is met; a vertex holds none.
\<close>

fun exploreEdges :: "TopoDS_Shape \<Rightarrow> TopoDS_Shape list" where
  "exploreEdges (Shape ty crv subs) =
     (if ty = TopAbs_EDGE then [Shape ty crv subs]
      else if ty = TopAbs_VERTEX \<or> ty = TopAbs_SHAPE then []
      else concat (map exploreEdges subs))"

definition point10 :: "gp_Pnt \<Rightarrow> string" where
  "point10 p =
     (case p of (x, y, z) \<Rightarrow>
        '' 10\<newline>'' @ show_double x @ ''\<newline> 20\<newline>'' @ show_double y
          @ ''\<newline> 30\<newline>'' @ show_double z @ ''\<newline>'')"

definition point11 :: "gp_Pnt \<Rightarrow> string" where
  "point11 p =
     (case p of (x, y, z) \<Rightarrow>
        '' 11\<newline>'' @ show_double x @ ''\<newline> 21\<newline>'' @ show_double y
          @ ''\<newline> 31\<newline>'' @ show_double z @ ''\<newline>'')"

definition edgeRecord :: "Kernel \<Rightarrow> TopoDS_Shape \<Rightarrow> string" where
  "edgeRecord K edge =
     (case edgeCurve edge of
        None \<Rightarrow> []
      | Some (curve, firstPar, lastPar) \<Rightarrow>
          (case curve of
             Geom_Line _ _ \<Rightarrow>
               ''  0\<newline>LINE\<newline>  8\<newline>0\<newline>''
                 @ point10 (CurveValue K curve firstPar) @ point11 (CurveValue K curve lastPar)
           | Geom_Circle center _ radius \<Rightarrow>
               ''  0\<newline>CIRCLE\<newline>  8\<newline>0\<newline>''
                 @ point10 center @ '' 40\<newline>'' @ show_double radius @ ''\<newline>''
           | Geom_TrimmedCurve basis startAngle endAngle \<Rightarrow>
               (case basis of
                  Geom_Circle center _ radius \<Rightarrow>
                    ''  0\<newline>ARC\<newline>  8\<newline>0\<newline>''
                      @ point10 center @ '' 40\<newline>'' @ show_double radius @ ''\<newline>''
                      @ '' 50\<newline>'' @ show_double (timesRat startAngle (180 / M_PI)) @ ''\<newline>''
                      @ '' 51\<newline>'' @ show_double (timesRat endAngle (180 / M_PI)) @ ''\<newline>''
                | _ \<Rightarrow> [])
           | Geom_OtherCurve _ \<Rightarrow> []))"

text \<open>
  The loops that collect, for each edge met that has a curve, the point of the curve at
  the first parameter of the edge.
\<close>

fun firstPoints :: "Kernel \<Rightarrow> TopoDS_Shape list \<Rightarrow> gp_Pnt list" where
  "firstPoints K [] = []"
| "firstPoints K (edge # rest) =
     (case edgeCurve edge of
        None \<Rightarrow> firstPoints K rest
      | Some (curve, firstPar, lastPar) \<Rightarrow> CurveValue K curve firstPar # firstPoints K rest)"

definition wireRecord :: "Kernel \<Rightarrow> TopoDS_Shape \<Rightarrow> string" where
  "wireRecord K s =
     (if ShapeType s = TopAbs_WIRE then
        (let points = firstPoints K (WireExplorer K s) in
         if points \<noteq> [] then
           ''  0\<newline>LWPOLYLINE\<newline>  8\<newline>0\<newline>  90\<newline>'' @ to_string (length points)
             @ ''\<newline>  70\<newline>1\<newline>'' @ concat (map point10 points)
         else [])
      else [])"

definition faceRecord :: "Kernel \<Rightarrow> TopoDS_Shape \<Rightarrow> string" where
  "faceRecord K s =
     (if ShapeType s = TopAbs_FACE then
        (let vertices = firstPoints K (exploreEdges s) in
         if 3 \<le> length vertices then
           ''  0\<newline>3DFACE\<newline>  8\<newline>0\<newline>'' @ concat (map point10 (take 4 vertices))
         else [])
      else [])"

definition shapeRecords :: "Kernel \<Rightarrow> TopoDS_Shape \<Rightarrow> string" where
  "shapeRecords K s =
     concat (map (edgeRecord K) (exploreEdges s)) @ wireRecord K s @ faceRecord K s"

definition dxfHeader :: string where
  "dxfHeader =
     ''  0\<newline>SECTION\<newline>  2\<newline>HEADER\<newline>  9\<newline>$ACADVER\<newline>  1\<newline>AC1015\<newline>  9\<newline>$INSUNITS\<newline>  70\<newline>4\<newline>  0\<newline>ENDSEC\<newline>''
     @ ''  0\<newline>SECTION\<newline>  2\<newline>TABLES\<newline>  0\<newline>TABLE\<newline>  2\<newline>LAYER\<newline>  0\<newline>LAYER\<newline>  2\<newline>0\<newline>  70\<newline>0\<newline>  62\<newline>7\<newline>  6\<newline>CONTINUOUS\<newline>''
     @ ''  0\<newline>ENDTAB\<newline>  0\<newline>ENDSEC\<newline>''
     @ ''  0\<newline>SECTION\<newline>  2\<newline>ENTITIES\<newline>''"

definition dxfFooter :: string where
  "dxfFooter = ''  0\<newline>ENDSEC\<newline>  0\<newline>EOF\<newline>''"

definition convertToDxf :: "Kernel \<Rightarrow> TopoDS_Shape list \<Rightarrow> string" where
  "convertToDxf K shapes = dxfHeader @ concat (map (shapeRecords K) shapes) @ dxfFooter"

section \<open>Notions the properties are stated with\<close>

text \<open>
  The end of a label's chain of references: the label itself when it is no reference,
  and the end of the chain of the label it refers to otherwise.
\<close>

inductive referenceChainEnd :: "XCAFDoc_ShapeTool \<Rightarrow> TDF_Label \<Rightarrow> TDF_Label \<Rightarrow> bool" where
  chainEnd_here:
    "GetReferredShape shapeTool label = None \<Longrightarrow> referenceChainEnd shapeTool label label"
| chainEnd_step:
    "GetReferredShape shapeTool label = Some referred \<Longrightarrow>
     referenceChainEnd shapeTool referred target \<Longrightarrow>
     referenceChainEnd shapeTool label target"

text \<open>
  A shape holds an empty compound when it is a compound, or a composite solid, that has
  no sub-shape or has a sub-shape that holds an empty compound.
\<close>

fun hasEmptyCompound :: "TopoDS_Shape \<Rightarrow> bool" where
  "hasEmptyCompound (Shape ty crv subs) =
     ((ty = TopAbs_COMPOUND \<or> ty = TopAbs_COMPSOLID)
      \<and> (subs = [] \<or> list_ex hasEmptyCompound subs))"













text \<open>
  The entities of the fixed text \<^verbatim>\<open>convertToDxf\<close> writes before and after the records
  of the shapes.
\<close>

definition headerEntities :: "DxfEntity list" where
  "headerEntities =
     [\<lparr> entityType = ''SECTION'',
         groupCodes = [(1, ''AC1015''), (2, ''HEADER''), (9, ''$INSUNITS''), (70, ''4'')],
         entityLayer = ''0'', entityColor = [] \<rparr>,
      \<lparr> entityType = ''ENDSEC'', groupCodes = [], entityLayer = ''0'', entityColor = [] \<rparr>,
      \<lparr> entityType = ''SECTION'', groupCodes = [(2, ''TABLES'')],
         entityLayer = ''0'', entityColor = [] \<rparr>,
      \<lparr> entityType = ''TABLE'', groupCodes = [(2, ''LAYER'')],
         entityLayer = ''0'', entityColor = [] \<rparr>,
      \<lparr> entityType = ''LAYER'',
         groupCodes = [(2, ''0''), (6, ''CONTINUOUS''), (62, ''7''), (70, ''0'')],
         entityLayer = ''0'', entityColor = ''7'' \<rparr>,
      \<lparr> entityType = ''ENDTAB'', groupCodes = [], entityLayer = ''0'', entityColor = [] \<rparr>,
      \<lparr> entityType = ''ENDSEC'', groupCodes = [], entityLayer = ''0'', entityColor = [] \<rparr>,
      \<lparr> entityType = ''SECTION'', groupCodes = [(2, ''ENTITIES'')],
         entityLayer = ''0'', entityColor = [] \<rparr>]"

definition footerEntities :: "DxfEntity list" where
  "footerEntities =
     [\<lparr> entityType = ''ENDSEC'', groupCodes = [], entityLayer = ''0'', entityColor = [] \<rparr>,
      \<lparr> entityType = ''EOF'', groupCodes = [], entityLayer = ''0'', entityColor = [] \<rparr>]"


section \<open>Inputs for the worked examples\<close>

subsection \<open>A document\<close>

text \<open>
  An assembly with one instance of a part, the part itself with a sub-shape label, and a
  folder label with a free shape below it. Only the part has a colour; the instance is a
  reference to the part and carries a name of its own.
\<close>

definition solidShape :: TopoDS_Shape where
  "solidShape = Shape TopAbs_SOLID None []"

definition faceShape :: TopoDS_Shape where
  "faceShape = Shape TopAbs_FACE None []"

definition asmShape :: TopoDS_Shape where
  "asmShape = Shape TopAbs_COMPOUND None [solidShape]"

definition looseShape :: TopoDS_Shape where
  "looseShape = Shape TopAbs_SHELL None [faceShape]"

definition faceLabel :: TDF_Label where
  "faceLabel = Label 4 (Some ''Face'') []"

definition partLabel :: TDF_Label where
  "partLabel = Label 2 (Some ''Part'') [faceLabel]"

definition instLabel :: TDF_Label where
  "instLabel = Label 3 (Some ''Instance'') []"

definition asmLabel :: TDF_Label where
  "asmLabel = Label 1 (Some ''Assembly'') [instLabel]"

definition looseLabel :: TDF_Label where
  "looseLabel = Label 6 (Some ''Loose'') []"

definition folderLabel :: TDF_Label where
  "folderLabel = Label 5 (Some ''Folder'') [looseLabel]"

definition rootLabel :: TDF_Label where
  "rootLabel = Label 0 None [asmLabel, partLabel, folderLabel]"

definition exampleShapeTool :: XCAFDoc_ShapeTool where
  "exampleShapeTool = \<lparr>
     GetShape = (\<lambda>l. if Tag l = 1 then Some asmShape
                      else if Tag l = 2 \<or> Tag l = 3 then Some solidShape
                      else if Tag l = 4 then Some faceShape
                      else if Tag l = 5 \<or> Tag l = 6 then Some looseShape
                      else None),
     IsFree = (\<lambda>l. Tag l = 1 \<or> Tag l = 2 \<or> Tag l = 5 \<or> Tag l = 6),
     IsSubShape = (\<lambda>l. Tag l = 4),
     GetReferredShape = (\<lambda>l. if Tag l = 3 then Some partLabel else None),
     Search = (\<lambda>s. if s = solidShape then Some partLabel
                    else if s = asmShape then Some asmLabel else None),
     mainLabel = rootLabel \<rparr>"

definition exampleColorTool :: XCAFDoc_ColorTool where
  "exampleColorTool = \<lparr>
     GetColor = (\<lambda>l t. if Tag l = 2 \<and> t = XCAFDoc_ColorGen then Some ''#FF0000'' else None) \<rparr>"

definition exampleTree :: ShapeNode where
  "exampleTree =
     ShapeNode None (Some [])
       [ShapeNode None None
          [ShapeNode (Some (Shape TopAbs_SOLID None [])) (Some ''#FF0000'') [] ''Part'']
          ''Assembly'',
        ShapeNode (Some (Shape TopAbs_SOLID None [])) (Some ''#FF0000'') [] ''Part'',
        ShapeNode None (Some [])
          [ShapeNode (Some (Shape TopAbs_SHELL None [Shape TopAbs_FACE None []])) (Some []) [] []]
          ''Folder'']
       []"

text \<open>The document that holds nothing: a main label without children.\<close>

definition emptyShapeTool :: XCAFDoc_ShapeTool where
  "emptyShapeTool = \<lparr>
     GetShape = (\<lambda>l. None), IsFree = (\<lambda>l. False), IsSubShape = (\<lambda>l. False),
     GetReferredShape = (\<lambda>l. None), Search = (\<lambda>s. None),
     mainLabel = Label 0 None [] \<rparr>"

text \<open>The document whose one free shape is a compound without sub-shapes.\<close>

definition emptyCompoundShapeTool :: XCAFDoc_ShapeTool where
  "emptyCompoundShapeTool = \<lparr>
     GetShape = (\<lambda>l. if Tag l = 1 then Some (Shape TopAbs_COMPOUND None []) else None),
     IsFree = (\<lambda>l. Tag l = 1), IsSubShape = (\<lambda>l. False),
     GetReferredShape = (\<lambda>l. None), Search = (\<lambda>s. None),
     mainLabel = Label 0 None [Label 1 (Some ''Empty'') []] \<rparr>"

subsection \<open>A kernel\<close>

text \<open>
  A kernel for the examples. An edge between two points carries the line from the first
  point with the difference of the two as its direction and the range from 0 to 1 (for
  points at distance 1, as in the examples, this is the geometry kernel's own edge), and
  there is no edge between equal points. Only lines are evaluated.
\<close>

definition lineValue :: "gp_Pnt \<Rightarrow> gp_Pnt \<Rightarrow> double \<Rightarrow> gp_Pnt" where
  "lineValue origin direction u =
     (case (origin, direction, u) of
        ((Fin ox, Fin oy, Fin oz), (Fin dx, Fin dy, Fin dz), Fin t) \<Rightarrow>
          (Fin (ox + t * dx), Fin (oy + t * dy), Fin (oz + t * dz))
      | _ \<Rightarrow> (NaN, NaN, NaN))"

definition exampleKernel :: Kernel where
  "exampleKernel = \<lparr>
     MakeEdge_Pnt = (\<lambda>p q.
       if p = q then Inl (Standard_Failure ''StdFail_NotDone'')
       else Inr (Shape TopAbs_EDGE
                   (Some (Geom_Line p (lineValue q p (Fin (- 1))), Fin 0, Fin 1)) [])),
     MakeEdge_Circle = (\<lambda>center radius u1 u2.
       Inr (Shape TopAbs_EDGE
              (Some (Geom_Circle center (Fin 0, Fin 0, Fin 1) radius, u1, u2)) [])),
     MakeWire = (\<lambda>edges.
       if edges = [] then Inl (Standard_Failure ''StdFail_NotDone'')
       else Inr (Shape TopAbs_WIRE None edges)),
     MakePolygonFace = (\<lambda>points closed. Inr (Shape TopAbs_FACE None [])),
     CurveValue = (\<lambda>curve u.
       case curve of Geom_Line origin direction \<Rightarrow> lineValue origin direction u
                   | _ \<Rightarrow> (NaN, NaN, NaN)),
     WireExplorer = (\<lambda>w. filter (\<lambda>s. ShapeType s = TopAbs_EDGE) (subShapes w)) \<rparr>"

subsection \<open>Interchange texts, a file system and shapes\<close>

text \<open>
  A file system without files on which every file can be created; a text of structural
  markers only; a well-formed text with one line; the same text without the start x of
  the line; a text whose first line entity has a start x that is no number; a closed
  polyline of three vertices; a text with a group code beyond the 32-bit integers; and
  the records of a text with one line.
\<close>

definition openFileSystem :: FileSystem where
  "openFileSystem = \<lparr> files = Map.empty, canCreate = (\<lambda>fileName. True) \<rparr>"

definition markersDxf :: string where
  "markersDxf = ''0\<newline>SECTION\<newline>2\<newline>ENTITIES\<newline>0\<newline>ENDSEC\<newline>0\<newline>EOF\<newline>''"

definition oneLineDxf :: string where
  "oneLineDxf =
     ''0\<newline>SECTION\<newline>2\<newline>ENTITIES\<newline>0\<newline>LINE\<newline>8\<newline>0\<newline>10\<newline>0\<newline>20\<newline>0\<newline>11\<newline>1\<newline>21\<newline>0\<newline>0\<newline>ENDSEC\<newline>0\<newline>EOF\<newline>''"

definition missingFieldDxf :: string where
  "missingFieldDxf =
     ''0\<newline>SECTION\<newline>2\<newline>ENTITIES\<newline>0\<newline>LINE\<newline>8\<newline>0\<newline>20\<newline>0\<newline>11\<newline>1\<newline>21\<newline>0\<newline>0\<newline>ENDSEC\<newline>0\<newline>EOF\<newline>''"

definition badLineDxf :: string where
  "badLineDxf =
     ''0\<newline>SECTION\<newline>2\<newline>ENTITIES\<newline>0\<newline>LINE\<newline>10\<newline>abc\<newline>20\<newline>0\<newline>11\<newline>1\<newline>21\<newline>0\<newline>0\<newline>LINE\<newline>10\<newline>0\<newline>20\<newline>0\<newline>11\<newline>1\<newline>21\<newline>0\<newline>0\<newline>ENDSEC\<newline>0\<newline>EOF\<newline>''"

definition closedTriangleDxf :: string where
  "closedTriangleDxf =
     ''0\<newline>LWPOLYLINE\<newline>90\<newline>3\<newline>70\<newline>1\<newline>10\<newline>0\<newline>20\<newline>0\<newline>10\<newline>4\<newline>20\<newline>0\<newline>10\<newline>4\<newline>20\<newline>3\<newline>''"




definition emptyWire :: TopoDS_Shape where
  "emptyWire = Shape TopAbs_WIRE None []"

definition openWire :: TopoDS_Shape where
  "openWire =
     Shape TopAbs_WIRE None
       [Shape TopAbs_EDGE (Some (Geom_Line (Fin 0, Fin 0, Fin 0) (Fin 1, Fin 0, Fin 0), Fin 0, Fin 1)) [],
        Shape TopAbs_EDGE (Some (Geom_Line (Fin 1, Fin 0, Fin 0) (Fin 0, Fin 1, Fin 0), Fin 0, Fin 1)) [],
        Shape TopAbs_EDGE (Some (Geom_Line (Fin 1, Fin 1, Fin 0) (Fin 1, Fin 0, Fin 0), Fin 0, Fin 1)) []]"

definition openWireEntities :: "DxfEntity list" where
  "openWireEntities =
     headerEntities
     @ [\<lparr> entityType = ''LINE'',
           groupCodes = [(8, ''0''), (10, ''0''), (11, ''1''), (20, ''0''), (21, ''0''),
                         (30, ''0''), (31, ''0'')],
           entityLayer = ''0'', entityColor = [] \<rparr>,
        \<lparr> entityType = ''LINE'',
           groupCodes = [(8, ''0''), (10, ''1''), (11, ''1''), (20, ''0''), (21, ''1''),
                         (30, ''0''), (31, ''0'')],
           entityLayer = ''0'', entityColor = [] \<rparr>,
        \<lparr> entityType = ''LINE'',
           groupCodes = [(8, ''0''), (10, ''1''), (11, ''2''), (20, ''1''), (21, ''1''),
                         (30, ''0''), (31, ''0'')],
           entityLayer = ''0'', entityColor = [] \<rparr>,
        \<lparr> entityType = ''LWPOLYLINE'',
           groupCodes = [(8, ''0''), (10, ''1''), (20, ''1''), (30, ''0''), (70, ''1''), (90, ''3'')],
           entityLayer = ''0'', entityColor = [] \<rparr>]
     @ footerEntities"


definition flatEdge :: TopoDS_Shape where
  "flatEdge =
     Shape TopAbs_EDGE (Some (Geom_Line (Fin 0, Fin 0, Fin 0) (Fin 1, Fin 0, Fin 0), Fin 0, Fin 1)) []"

section \<open>Properties of the label classification\<close>

lemmas example_document_defs =
  solidShape_def faceShape_def asmShape_def looseShape_def faceLabel_def partLabel_def
  instLabel_def asmLabel_def looseLabel_def folderLabel_def rootLabel_def
  exampleShapeTool_def exampleColorTool_def

lemma hasSubShapeChild_iff:
  "hasSubShapeChild shapeTool ls \<longleftrightarrow> (\<exists>c\<in>set ls. IsSubShape shapeTool c)"
  by (induction ls) auto

lemma hasFreeShapeChild_iff:
  "hasFreeShapeChild shapeTool ls \<longleftrightarrow> (\<exists>c\<in>set ls. isFreeShape shapeTool c)"
  by (induction ls) auto

text \<open>
  C4. A label is a mesh node exactly when it has no child labels, or some child label is
  a sub-shape, or no child label is a free shape. In particular a label without
  children is a mesh node, and so is a label that has children all of which are
  sub-shapes.
\<close>

theorem isMeshNode_iff:
  "(isMeshNode shapeTool label \<longleftrightarrow>
      childLabels label = []
      \<or> (\<exists>c\<in>set (childLabels label). IsSubShape shapeTool c)
      \<or> \<not> (\<exists>c\<in>set (childLabels label). isFreeShape shapeTool c))
   \<and> (childLabels label = [] \<longrightarrow> isMeshNode shapeTool label)
   \<and> (childLabels label \<noteq> [] \<and> (\<forall>c\<in>set (childLabels label). IsSubShape shapeTool c)
        \<longrightarrow> isMeshNode shapeTool label)"
proof -
  have eq: "isMeshNode shapeTool label \<longleftrightarrow>
      childLabels label = []
      \<or> (\<exists>c\<in>set (childLabels label). IsSubShape shapeTool c)
      \<or> \<not> (\<exists>c\<in>set (childLabels label). isFreeShape shapeTool c)"
    unfolding isMeshNode_def HasChild_def hasSubShapeChild_iff hasFreeShapeChild_iff by auto
  have "childLabels label \<noteq> [] \<Longrightarrow> \<forall>c\<in>set (childLabels label). IsSubShape shapeTool c
        \<Longrightarrow> \<exists>c\<in>set (childLabels label). IsSubShape shapeTool c"
    by (cases "childLabels label") auto
  with eq show ?thesis by blast
qed

text \<open>
  The instance has no children, the part has one child and it is a sub-shape, and the
  folder has a free shape below it and no sub-shape.
\<close>

theorem isMeshNode_iff_witness:
  "childLabels instLabel = [] \<and> isMeshNode exampleShapeTool instLabel
   \<and> childLabels partLabel = [faceLabel] \<and> IsSubShape exampleShapeTool faceLabel
   \<and> isMeshNode exampleShapeTool partLabel
   \<and> \<not> isMeshNode exampleShapeTool folderLabel"
  using isMeshNode_iff [of exampleShapeTool instLabel]
    isMeshNode_iff [of exampleShapeTool partLabel]
    isMeshNode_iff [of exampleShapeTool folderLabel]
  by (simp add: example_document_defs isFreeShape_def)

section \<open>Properties of the attribute resolution\<close>

text \<open>
  C5, as the code has it. Name resolution asks first whether the label is a reference,
  and when it is, goes on to the label referred to without reading the name attribute of
  the reference; the name attribute is read only from the label at the end of the chain
  of references. The result is that label's name (empty when it has none), whatever
  names the references on the way carry.
\<close>

theorem getLabelName_reference_first:
  "referenceChainEnd shapeTool label target \<Longrightarrow>
     getLabelName shapeTool label = Some (getLabelNameNoRef target)"
proof (induction rule: referenceChainEnd.induct)
  case (chainEnd_here shapeTool label)
  then show ?case by (subst getLabelName.simps) simp
next
  case (chainEnd_step shapeTool label referred target)
  then show ?case by (subst getLabelName.simps) simp
qed

theorem getLabelName_reference_first_witness:
  "referenceChainEnd exampleShapeTool instLabel partLabel
   \<and> getLabelName exampleShapeTool instLabel = Some ''Part''"
proof -
  have "referenceChainEnd exampleShapeTool partLabel partLabel"
    by (rule chainEnd_here) (simp add: example_document_defs)
  then have c: "referenceChainEnd exampleShapeTool instLabel partLabel"
    by (rule chainEnd_step [rotated]) (simp add: example_document_defs)
  from getLabelName_reference_first [OF c] c show ?thesis
    by (simp add: getLabelNameNoRef_def partLabel_def faceLabel_def)
qed

text \<open>
  C5 as stated fails: the instance label is a reference and carries the name
  \<open>Instance\<close>, and its name resolves to \<open>Part\<close>, the name of the label it refers to.
\<close>

theorem getLabelName_own_name_counterexample:
  "IsReference exampleShapeTool instLabel \<and> nameAttribute instLabel = Some ''Instance''
   \<and> getLabelName exampleShapeTool instLabel = Some ''Part''"
  by (simp add: getLabelName.simps example_document_defs getLabelNameNoRef_def IsReference_def)

text \<open>
  C6 fails on the code. When the colour resolution of a label returns and finds no
  colour, the node \<^verbatim>\<open>initLabelNode\<close> builds holds a colour all the same: the empty
  string, present in the optional field.
\<close>

theorem initLabelNode_color_present_but_empty:
  "getLabelColor shapeTool colorTool label = Some None \<Longrightarrow>
   getLabelName shapeTool label = Some nm \<Longrightarrow>
   initLabelNode shapeTool colorTool label = Some (ShapeNode None (Some []) [] nm)"
  by (simp add: initLabelNode_def colorOrEmpty_def)

theorem initLabelNode_color_present_but_empty_witness:
  "getLabelColor exampleShapeTool exampleColorTool folderLabel = Some None
   \<and> initLabelNode exampleShapeTool exampleColorTool folderLabel
       = Some (ShapeNode None (Some []) [] ''Folder'')"
proof -
  have c: "getLabelColor exampleShapeTool exampleColorTool folderLabel = Some None"
    by (simp add: getLabelColor.simps example_document_defs getLabelColorNoRef_def colorTypes_def)
  have n: "getLabelName exampleShapeTool folderLabel = Some ''Folder''"
    by (simp add: getLabelName.simps example_document_defs getLabelNameNoRef_def)
  from initLabelNode_color_present_but_empty [OF c n] c show ?thesis by simp
qed

section \<open>Properties of the tree\<close>

lemma those_map_Some:
  "those (map f xs) = Some ys \<Longrightarrow> y \<in> set ys \<Longrightarrow> \<exists>x\<in>set xs. f x = Some y"
  by (induction xs arbitrary: ys) (auto split: option.splits)

lemma those_map_length: "those (map f xs) = Some ys \<Longrightarrow> length ys = length xs"
  by (induction xs arbitrary: ys) (auto split: option.splits)

lemma nodes_push_back_all:
  "children node = [] \<Longrightarrow> n \<in> set (nodes (push_back_all node childNodes)) \<Longrightarrow>
     n = push_back_all node childNodes \<or> (\<exists>y\<in>set childNodes. n \<in> set (nodes y))"
  by (cases node) (auto simp: push_back_all_def)

text \<open>
  The nodes \<^verbatim>\<open>parseShape\<close> returns for a shape: none has both a shape and children, and
  one that has neither is a group node, which carries no colour, of a compound without
  sub-shapes.
\<close>

lemma parseShape_kinds:
  "parseShape shapeTool colorTool s = Some t \<Longrightarrow> n \<in> set (nodes t) \<Longrightarrow>
     (shape n = None \<or> children n = [])
     \<and> (shape n = None \<and> children n = [] \<longrightarrow> color n = None \<and> hasEmptyCompound s)"
proof (induction shapeTool colorTool s arbitrary: t rule: parseShape.induct)
  case (1 shapeTool colorTool ty crv subs)
  show ?case
  proof (cases "ty = TopAbs_COMPOUND \<or> ty = TopAbs_COMPSOLID")
    case True
    with "1.prems"(1) obtain node childNodes where
      g: "initGroupNode shapeTool (Shape ty crv subs) = Some node" and
      c: "those (map (parseShape shapeTool colorTool) subs) = Some childNodes" and
      t: "t = push_back_all node childNodes"
      by (auto split: option.splits)
    from g have node: "shape node = None" "children node = []" "color node = None"
      by (auto simp: initGroupNode_def split: option.splits)
    from "1.prems"(2) t nodes_push_back_all [OF node(2), of n childNodes]
    consider "n = t" | y where "y \<in> set childNodes" "n \<in> set (nodes y)"
      by blast
    then show ?thesis
    proof cases
      case 1
      from those_map_length [OF c] have "childNodes = [] \<longleftrightarrow> subs = []" by auto
      with 1 t node True show ?thesis by (auto simp: push_back_all_def)
    next
      case 2
      from those_map_Some [OF c 2(1)] obtain x where
        x: "x \<in> set subs" "parseShape shapeTool colorTool x = Some y"
        by blast
      from "1.IH" [OF True g x 2(2)] x(1) True show ?thesis
        by (auto simp: list_ex_iff)
    qed
  next
    case False
    with "1.prems"(1) have "initShapeNode shapeTool colorTool (Shape ty crv subs) = Some t" by simp
    with "1.prems"(2) show ?thesis
      by (auto simp: initShapeNode_def split: option.splits)
  qed
qed

lemma parseLabelToNode_kinds:
  "parseLabelToNode shapeTool colorTool label = Some t \<Longrightarrow> n \<in> set (nodes t) \<Longrightarrow>
     (shape n = None \<or> children n = [])
     \<and> (shape n = None \<and> children n = [] \<longrightarrow>
          color n = None \<and> (\<exists>l s. GetShape shapeTool l = Some s \<and> hasEmptyCompound s))"
proof (induction shapeTool colorTool label arbitrary: t rule: parseLabelToNode.induct)
  case (1 shapeTool colorTool tg nm kids)
  let ?l = "Label tg nm kids"
  show ?case
  proof (cases "isMeshNode shapeTool ?l")
    case True
    with "1.prems"(1) obtain s where s: "GetShape shapeTool ?l = Some s"
      and p: "parseShape shapeTool colorTool s = Some t"
      by (auto split: option.splits)
    from parseShape_kinds [OF p "1.prems"(2)] s show ?thesis by blast
  next
    case False
    with "1.prems"(1) obtain node childNodes where
      g: "initLabelNode shapeTool colorTool ?l = Some node" and
      c: "those (map (parseLabelToNode shapeTool colorTool)
                   (filter (isFreeShape shapeTool) kids)) = Some childNodes" and
      t: "t = push_back_all node childNodes"
      by (auto split: option.splits)
    from g have node: "shape node = None" "children node = []"
      by (auto simp: initLabelNode_def split: option.splits)
    from False have "hasFreeShapeChild shapeTool kids"
      by (simp add: isMeshNode_def split: if_splits)
    then have "filter (isFreeShape shapeTool) kids \<noteq> []"
      by (auto simp: hasFreeShapeChild_iff filter_empty_conv)
    with those_map_length [OF c] have ne: "childNodes \<noteq> []" by auto
    from "1.prems"(2) t nodes_push_back_all [OF node(2), of n childNodes]
    consider "n = t" | y where "y \<in> set childNodes" "n \<in> set (nodes y)"
      by blast
    then show ?thesis
    proof cases
      case 1
      with t node ne show ?thesis by (simp add: push_back_all_def)
    next
      case 2
      from those_map_Some [OF c 2(1)] obtain x where
        x: "x \<in> set (filter (isFreeShape shapeTool) kids)"
           "parseLabelToNode shapeTool colorTool x = Some y"
        by blast
      from "1.IH" [OF False g x 2(2)] show ?thesis .
    qed
  qed
qed

text \<open>
  C8, as the code has it. In every tree the extraction returns, no node has both a
  shape and children, and every node has one of the two, with two exceptions: the root,
  which has no children exactly when the main label has no free-shape child, and a group
  node, which carries no colour, of a compound without sub-shapes in the shape of a
  label. The root never carries a shape.
\<close>

theorem parseRootLabelToNode_shape_or_children:
  assumes "parseRootLabelToNode shapeTool colorTool = Some t"
  shows "(\<forall>n\<in>set (nodes t). shape n = None \<or> children n = [])
       \<and> (\<forall>n\<in>set (nodes t). shape n = None \<and> children n = [] \<longrightarrow>
            (n = t \<and> \<not> hasFreeShapeChild shapeTool (childLabels (mainLabel shapeTool)))
            \<or> (color n = None
                \<and> (\<exists>label s. GetShape shapeTool label = Some s \<and> hasEmptyCompound s)))
       \<and> shape t = None
       \<and> (children t = [] \<longleftrightarrow>
            \<not> hasFreeShapeChild shapeTool (childLabels (mainLabel shapeTool)))"
proof -
  let ?kids = "filter (isFreeShape shapeTool) (childLabels (mainLabel shapeTool))"
  from assms obtain node childNodes where
    g: "initLabelNode shapeTool colorTool (mainLabel shapeTool) = Some node" and
    c: "those (map (parseLabelToNode shapeTool colorTool) ?kids) = Some childNodes" and
    t: "t = push_back_all node childNodes"
    by (auto simp: parseRootLabelToNode_def Let_def split: option.splits)
  from g have node: "shape node = None" "children node = []"
    by (auto simp: initLabelNode_def split: option.splits)
  have "?kids = [] \<longleftrightarrow> \<not> hasFreeShapeChild shapeTool (childLabels (mainLabel shapeTool))"
    by (auto simp: hasFreeShapeChild_iff filter_empty_conv)
  with those_map_length [OF c] have
    root: "childNodes = [] \<longleftrightarrow> \<not> hasFreeShapeChild shapeTool (childLabels (mainLabel shapeTool))"
    by auto
  have below: "(shape n = None \<or> children n = [])
     \<and> (shape n = None \<and> children n = [] \<longrightarrow>
          color n = None \<and> (\<exists>l s. GetShape shapeTool l = Some s \<and> hasEmptyCompound s))"
    if "y \<in> set childNodes" "n \<in> set (nodes y)" for y n
  proof -
    from those_map_Some [OF c that(1)] obtain x where
      "parseLabelToNode shapeTool colorTool x = Some y"
      by blast
    from parseLabelToNode_kinds [OF this that(2)] show ?thesis .
  qed
  have split: "n = t \<or> (\<exists>y\<in>set childNodes. n \<in> set (nodes y))" if "n \<in> set (nodes t)" for n
    using that t nodes_push_back_all [OF node(2), of n childNodes] by blast
  have top: "shape t = None" "children t = childNodes"
    using t node by (simp_all add: push_back_all_def)
  from split below top root show ?thesis by blast
qed

lemma example_tree:
  "parseRootLabelToNode exampleShapeTool exampleColorTool = Some exampleTree"
  by (simp add: parseRootLabelToNode_def example_document_defs isFreeShape_def isMeshNode_def
      HasChild_def initLabelNode_def initShapeNode_def initGroupNode_def getShapeName_def
      getShapeColor_def getLabelName.simps getLabelColor.simps getLabelColorNoRef_def
      colorTypes_def getLabelNameNoRef_def colorOrEmpty_def push_back_all_def exampleTree_def)

text \<open>
  The example document: every node of its tree has either a shape or children, and the
  main label has a free-shape child.
\<close>

theorem parseRootLabelToNode_shape_or_children_witness:
  "parseRootLabelToNode exampleShapeTool exampleColorTool = Some exampleTree
   \<and> list_all (\<lambda>n. shape n = None \<or> children n = []) (nodes exampleTree)
   \<and> list_all (\<lambda>n. shape n \<noteq> None \<or> children n \<noteq> []) (nodes exampleTree)
   \<and> hasFreeShapeChild exampleShapeTool (childLabels (mainLabel exampleShapeTool))"
  using parseRootLabelToNode_shape_or_children [OF example_tree] example_tree
  by (simp add: list_all_iff exampleTree_def exampleShapeTool_def rootLabel_def asmLabel_def
      isFreeShape_def asmShape_def)

text \<open>The group node of a compound without sub-shapes has neither a shape nor children.\<close>

lemma parseShape_empty_compound:
  assumes "ty = TopAbs_COMPOUND \<or> ty = TopAbs_COMPSOLID"
    and "parseShape shapeTool colorTool (Shape ty crv []) = Some n"
  shows "shape n = None \<and> children n = [] \<and> color n = None"
  using assms by (auto simp: initGroupNode_def push_back_all_def split: option.splits)

text \<open>
  C8 as stated fails: for the document that holds nothing the extraction returns a
  single node, and it has neither a shape nor children; for the document whose one free
  shape is a compound without sub-shapes, the node below the root has neither.
\<close>

theorem parseRootLabelToNode_both_absent_counterexample:
  "parseRootLabelToNode emptyShapeTool exampleColorTool = Some (ShapeNode None (Some []) [] [])
   \<and> parseRootLabelToNode emptyCompoundShapeTool exampleColorTool =
       Some (ShapeNode None (Some []) [ShapeNode None None [] []] [])"
  by (simp add: parseRootLabelToNode_def emptyShapeTool_def emptyCompoundShapeTool_def
      exampleColorTool_def isFreeShape_def isMeshNode_def HasChild_def
      initLabelNode_def initGroupNode_def getShapeName_def
      getLabelName.simps getLabelColor.simps getLabelColorNoRef_def
      colorTypes_def getLabelNameNoRef_def colorOrEmpty_def push_back_all_def)

section \<open>Properties of the interchange parser and of the reconstruction\<close>


lemmas parser_defs =
  parseDxfEntities_def trim_def isTrimmed_def isGroupCodeLine_def isdigit_def stoi_def
  skipSign_def isspace_def digitsValue_def digitValue_def newEntity_def closeEntity_def Let_def

lemmas stod_defs =
  stod_def skipSign_def startsWith_def isspace_def tolower_def isxdigit_def isdigit_def
  fractionDigits_def rangeChecked_def scaleBy_def exponentPart_def afterMantissa_def
  digitsValue_def digitValue_def

lemma stod_0: "stod ''0'' = Inr (Fin 0)"
  by (simp add: stod_defs)

lemma stod_1: "stod ''1'' = Inr (Fin 1)"
  by (simp add: stod_defs)

lemma stod_abc: "stod ''abc'' = Inl invalid_argument"
  by (simp add: stod_defs)




lemma convertFromDxf_result:
  "canCreate fs ''temp.dxf'' \<Longrightarrow>
   snd (convertFromDxf K buffer fs) =
     bindE (parseDxfEntities buffer) (\<lambda>entities.
     bindE (addEntities K entities []) (\<lambda>compound.
       Inr (Some (ShapeNode (Some (Shape TopAbs_COMPOUND None compound)) None []
                    (''DXF Import ('' @ to_string (length entities) @ '' entities)'')))))"
  by (simp add: convertFromDxf_def writeBufferToFile_def Let_def)



























text \<open>
  A text of three structural markers: three entities, none yields a shape, and the node
  is returned with the empty compound and the count 3 in its name.
\<close>

lemma markersDxf_converted:
  "snd (convertFromDxf K markersDxf openFileSystem) =
     Inr (Some (ShapeNode (Some (Shape TopAbs_COMPOUND None [])) None []
                  ''DXF Import (3 entities)''))"
  by (simp add: convertFromDxf_result openFileSystem_def markersDxf_def parser_defs bindE_def
      entityShape_def to_string.simps)

text \<open>
  A text with one line between the markers: four entities are counted, one of them yields
  a shape, so the count in the name exceeds the number of shapes in the compound.
\<close>

lemma oneLineDxf_converted:
  "snd (convertFromDxf exampleKernel oneLineDxf openFileSystem) =
     Inr (Some (ShapeNode (Some (Shape TopAbs_COMPOUND None [flatEdge])) None []
                  ''DXF Import (4 entities)''))"
  by (simp add: convertFromDxf_result openFileSystem_def oneLineDxf_def parser_defs bindE_def
      entityShape_def createLineFromDxf_def find_code_def to_string.simps stod_0 stod_1
      built_def exampleKernel_def lineValue_def flatEdge_def)

text \<open>
  The sibling path of the malformed number: a line whose start x is missing is skipped,
  the builder returns a null shape and the conversion returns its node, whatever the
  kernel.
\<close>

lemma convertFromDxf_missing_field_skipped:
  "snd (convertFromDxf K missingFieldDxf openFileSystem) =
     Inr (Some (ShapeNode (Some (Shape TopAbs_COMPOUND None [])) None []
                  ''DXF Import (4 entities)''))"
  by (simp add: convertFromDxf_result openFileSystem_def missingFieldDxf_def parser_defs bindE_def
      entityShape_def createLineFromDxf_def find_code_def to_string.simps)

text \<open>
  C1 fails on the code. The first line entity of the text has the start x \<open>abc\<close>:
  \<^verbatim>\<open>std::stod\<close> raises \<^verbatim>\<open>invalid_argument\<close>, nothing catches it, and the conversion
  returns no node, whatever the kernel, although the text goes on with a well-formed
  line.
\<close>

theorem convertFromDxf_malformed_number_aborts:
  "snd (convertFromDxf K badLineDxf openFileSystem) = Inl invalid_argument"
  by (simp add: convertFromDxf_result openFileSystem_def badLineDxf_def parser_defs bindE_def
      entityShape_def createLineFromDxf_def find_code_def stod_abc)

text \<open>
  The codes of an entity are a \<^verbatim>\<open>std::map\<close>: assignment keeps the keys strictly increasing,
  hence one value under each code, and so does the parser for every entity it returns.
\<close>

lemma assign_keys: "fst ` set (assign k v m) = insert k (fst ` set m)"
  by (induction m) (auto simp: rev_image_eqI split: if_splits)

lemma assign_sorted:
  "sorted_wrt (<) (map fst m) \<Longrightarrow> sorted_wrt (<) (map fst (assign k v m))"
proof (induction m)
  case Nil
  then show ?case by simp
next
  case (Cons a m)
  obtain k' v' where a: "a = (k', v')" by (cases a)
  from Cons.prems a have tl: "sorted_wrt (<) (map fst m)" and hd: "\<forall>x\<in>set (map fst m). k' < x"
    by auto
  show ?case
  proof (cases "k < k'")
    case True
    with Cons.prems a show ?thesis by auto
  next
    case False
    show ?thesis
    proof (cases "k = k'")
      case True
      with Cons.prems a show ?thesis by simp
    next
      case ne: False
      with False have "k' < k" by simp
      with hd have "\<forall>x\<in>fst ` set (assign k v m). k' < x"
        unfolding assign_keys by simp
      with Cons.IH [OF tl] a False ne show ?thesis by simp
    qed
  qed
qed

lemma closeEntity_invariant:
  assumes lay: "\<And>e l. P e \<Longrightarrow> P (e\<lparr> entityLayer := l \<rparr>)"
    and ents: "\<forall>e\<in>set entities. P e"
    and cur: "\<forall>e\<in>set_option cur. P e"
  shows "\<forall>e\<in>set (entities @ closeEntity cur layer). P e"
proof (cases cur)
  case None
  with ents show ?thesis by (simp add: closeEntity_def)
next
  case (Some e)
  with cur have "P e" by simp
  from lay [OF this] Some ents show ?thesis by (auto simp: closeEntity_def)
qed

lemma parseDxf_loop_invariant:
  assumes new: "\<And>v. P (newEntity v)"
    and upd: "\<And>e k v c. P e \<Longrightarrow>
                P (e\<lparr> groupCodes := assign k v (groupCodes e), entityColor := c \<rparr>)"
    and lay: "\<And>e l. P e \<Longrightarrow> P (e\<lparr> entityLayer := l \<rparr>)"
  shows "parseDxf_loop ls entities cur layer = Inr es \<Longrightarrow>
     \<forall>e\<in>set entities. P e \<Longrightarrow> \<forall>e\<in>set_option cur. P e \<Longrightarrow> \<forall>e\<in>set es. P e"
proof (induction ls entities cur layer arbitrary: es rule: parseDxf_loop.induct)
  case (1 entities currentEntity currentLayer)
  from "1.prems"(1) have "es = entities @ closeEntity currentEntity currentLayer"
    by simp
  with closeEntity_invariant [of P, OF lay "1.prems"(2,3), of currentLayer]
  show ?case by simp
next
  case (2 raw rest entities currentEntity currentLayer)
  note closed = closeEntity_invariant [of P, OF lay "2.prems"(2,3), of currentLayer]
  note run = "2.prems"(1)
  show ?case
  proof (cases "trim raw = []")
    case True
    with run have "parseDxf_loop rest entities currentEntity currentLayer = Inr es"
      by simp
    from "2.IH"(1) [OF refl True this "2.prems"(2,3)] show ?thesis .
  next
    case ne: False
    show ?thesis
    proof (cases "isGroupCodeLine (trim raw)")
      case False
      with ne run have "parseDxf_loop rest entities currentEntity currentLayer = Inr es"
        by simp
      from "2.IH"(6) [OF refl ne False this "2.prems"(2,3)] show ?thesis .
    next
      case gc: True
      from run ne gc obtain groupCode where st: "stoi (trim raw) = Inr groupCode"
        by (auto simp: Let_def split: sum.splits)
      show ?thesis
      proof (cases rest)
        case Nil
        with run ne gc st have "es = entities @ closeEntity currentEntity currentLayer"
          by simp
        with closed show ?thesis by simp
      next
        case (Cons raw2 rest2)
        show ?thesis
        proof (cases "groupCode = 0")
          case True
          with run ne gc st Cons have
            "parseDxf_loop rest2 (entities @ closeEntity currentEntity currentLayer)
               (Some (newEntity (trim raw2))) currentLayer = Inr es"
            by (simp add: Let_def)
          moreover have "\<forall>e\<in>set_option (Some (newEntity (trim raw2))). P e"
            using new by simp
          ultimately show ?thesis
            using "2.IH"(3) [OF refl ne gc st Cons refl True _ closed] by blast
        next
          case nz: False
          show ?thesis
          proof (cases currentEntity)
            case None
            with run ne gc st Cons nz have
              "parseDxf_loop rest2 entities None currentLayer = Inr es"
              by (simp add: Let_def)
            moreover have "\<forall>e\<in>set_option (None :: DxfEntity option). P e" by simp
            ultimately show ?thesis
              using "2.IH"(4) [OF refl ne gc st Cons refl nz None _ "2.prems"(2)] by blast
          next
            case (Some e)
            let ?e' = "e\<lparr> groupCodes := assign groupCode (trim raw2) (groupCodes e),
                        entityColor := (if groupCode = 62 then trim raw2 else entityColor e) \<rparr>"
            let ?layer' = "if groupCode = 8 then trim raw2 else currentLayer"
            from run ne gc st Cons nz Some have
              "parseDxf_loop rest2 entities (Some ?e') ?layer' = Inr es"
              by (simp add: Let_def)
            moreover from "2.prems"(3) Some have "P e" by simp
            from upd [OF this] have "\<forall>e\<in>set_option (Some ?e'). P e" by simp
            ultimately show ?thesis
              using "2.IH"(5) [OF refl ne gc st Cons refl nz Some _ "2.prems"(2)] by blast
          qed
        qed
      qed
    qed
  qed
qed

lemma parseDxfEntities_sorted:
  assumes "parseDxfEntities content = Inr es"
  shows "\<forall>e\<in>set es. sorted_wrt (<) (map fst (groupCodes e))"
proof (rule parseDxf_loop_invariant [where cur = None and entities = "[]"])
  from assms show "parseDxf_loop (getlines content) [] None ''0'' = Inr es"
    by (simp add: parseDxfEntities_def)
qed (simp_all add: newEntity_def assign_sorted)

text \<open>
  The loop of \<^verbatim>\<open>createPolylineFromDxf\<close> appends one number for each pair of the map with the
  code 10, 20 or 30. On the map of a parsed entity it finds at most one x, so it
  builds at most one point: whenever it returns, it returns the null shape.
\<close>

lemma collectCodes_lengths:
  "collectCodes m xs ys zs = Inr (xs', ys', zs') \<Longrightarrow>
     length xs' = length xs + length (filter (\<lambda>p. fst p = 10) m)
     \<and> length ys' = length ys + length (filter (\<lambda>p. fst p = 20) m)
     \<and> length zs' = length zs + length (filter (\<lambda>p. fst p = 30) m)"
proof (induction m xs ys zs rule: collectCodes.induct)
  case (1 xCodes yCodes zCodes)
  then show ?case by simp
next
  case (2 code val rest xCodes yCodes zCodes)
  then show ?case
    by (auto simp: bindE_def split: if_splits sum.splits)
qed

lemma one_value_per_code:
  "sorted_wrt (<) (map fst (m :: groupMap)) \<Longrightarrow> length (filter (\<lambda>p. fst p = k) m) \<le> 1"
proof (induction m)
  case Nil
  then show ?case by simp
next
  case (Cons a m)
  show ?case
  proof (cases "fst a = k")
    case True
    have "fst p \<noteq> k" if "p \<in> set m" for p
      using that Cons.prems True by auto
    then have "filter (\<lambda>p. fst p = k) m = []" by (simp add: filter_empty_conv)
    with True show ?thesis by simp
  next
    case False
    with Cons show ?thesis by simp
  qed
qed

lemma createPolylineFromDxf_no_wire:
  assumes sorted: "sorted_wrt (<) (map fst (groupCodes entity))"
    and returns: "createPolylineFromDxf K entity = Inr r"
  shows "r = None"
proof -
  from returns obtain is3D where
    r: "bindE (collectCodes (groupCodes entity) [] [] []) (\<lambda>(xCodes, yCodes, zCodes).
       let points =
             (if is3D then map (\<lambda>(x, y, z). pnt_of_ints x y z) (zip xCodes (zip yCodes zCodes))
              else map (\<lambda>(x, y). pnt_of_ints x y 0) (zip xCodes yCodes))
       in if 2 \<le> length points then
            bindE (chainEdges K points) (\<lambda>edges.
            bindE (if entityType entity = ''LWPOLYLINE'' \<and> 2 < length points
                   then flagBit 0 entity else Inr False) (\<lambda>isClosed.
            bindE (if isClosed
                   then bindE (MakeEdge_Pnt K (last points) (hd points)) (\<lambda>edge. Inr [edge])
                   else Inr []) (\<lambda>closing.
              built (MakeWire K (edges @ closing)))))
          else Inr None) = Inr r"
    unfolding createPolylineFromDxf_def
    by (cases "if entityType entity = ''POLYLINE'' then flagBit 3 entity else Inr False")
      (simp_all add: bindE_def)
  then obtain xCodes yCodes zCodes where
    c: "collectCodes (groupCodes entity) [] [] [] = Inr (xCodes, yCodes, zCodes)"
    by (cases "collectCodes (groupCodes entity) [] [] []") (auto simp: bindE_def)
  from collectCodes_lengths [OF c] one_value_per_code [OF sorted, of 10]
  have "length xCodes \<le> 1" by simp
  with r show ?thesis
    unfolding c bindE_def by (cases is3D) (simp_all add: Let_def)
qed

lemma parsed_polyline_no_wire:
  assumes "parseDxfEntities content = Inr es" and "e \<in> set es"
    and "createPolylineFromDxf K e = Inr r"
  shows "r = None"
  using parseDxfEntities_sorted [OF assms(1)] assms(2,3) createPolylineFromDxf_no_wire
  by blast

text \<open>
  C3 fails on the code. Of a closed polyline with the three vertices (0,0), (4,0) and
  (4,3) the parser keeps one value under each of the codes 10 and 20, the last; the
  reconstructor gets one point and builds no wire. By the lemmas above no parsed
  polyline ever yields a wire.
\<close>

theorem createPolylineFromDxf_keeps_one_vertex:
  "parseDxfEntities closedTriangleDxf =
     Inr [\<lparr> entityType = ''LWPOLYLINE'',
            groupCodes = [(10, ''4''), (20, ''3''), (70, ''1''), (90, ''3'')],
            entityLayer = ''0'', entityColor = [] \<rparr>]
   \<and> snd (convertFromDxf K closedTriangleDxf openFileSystem) =
       Inr (Some (ShapeNode (Some (Shape TopAbs_COMPOUND None [])) None []
                    ''DXF Import (1 entities)''))"
  by (simp add: convertFromDxf_result openFileSystem_def closedTriangleDxf_def parser_defs bindE_def
      entityShape_def createPolylineFromDxf_def find_code_def flagBit_def pnt_of_ints_def
      to_string.simps)

section \<open>Properties of the staging files\<close>

text \<open>
  C7 fails on the code for \<^verbatim>\<open>convertFromStl\<close>. After the call the staging file
  \<open>temp.stl\<close> is there with the buffer whenever it could be written (and a file of
  that name that was there before stays otherwise): no path of the function removes it.
  The other two entry points remove their file on every path.
\<close>

theorem convertFromStl_leaves_file:
  "files (fst (convertFromStl R buffer fs)) ''temp.stl'' =
     (if canCreate fs ''temp.stl'' then Some buffer else files fs ''temp.stl'')"
  by (simp add: convertFromStl_def writeBufferToFile_def Let_def split: option.splits)

lemma convertFromDxf_removes_file:
  "files (fst (convertFromDxf K buffer fs)) ''temp.dxf'' = None"
  by (simp add: convertFromDxf_def remove_def Let_def split: option.splits)

lemma convertFromIges_removes_file:
  "files (fst (convertFromIges R buffer fs)) ''temp.igs'' = None"
  by (simp add: convertFromIges_def remove_def Let_def split: option.splits prod.splits)

section \<open>Properties of the interchange writer\<close>

lemma firstPoints_map_filter:
  "firstPoints K es =
     List.map_filter (\<lambda>e. map_option (\<lambda>(c, u1, u2). CurveValue K c u1) (edgeCurve e)) es"
  by (induction es) (auto simp: List.map_filter_simps split: option.splits)

text \<open>
  For a shape that is a wire, the writer puts after the curve records of its edges one
  \<open>LWPOLYLINE\<close> record when the walk in wire order meets an edge with a curve, and none
  otherwise. The record lists one point for each such edge, the point of its curve at the
  first parameter of the edge, in the order of the walk; code 90 holds the number of
  these points and code 70 is always 1.
\<close>

lemma convertToDxf_wire_record:
  assumes "ShapeType s = TopAbs_WIRE"
  shows "convertToDxf K (before @ s # after) =
     dxfHeader @ concat (map (shapeRecords K) before)
     @ concat (map (edgeRecord K) (exploreEdges s))
     @ (let points = List.map_filter (\<lambda>e. map_option (\<lambda>(c, u1, u2). CurveValue K c u1) (edgeCurve e))
                       (WireExplorer K s)
        in if points = [] then []
           else ''  0\<newline>LWPOLYLINE\<newline>  8\<newline>0\<newline>  90\<newline>'' @ to_string (length points)
                  @ ''\<newline>  70\<newline>1\<newline>'' @ concat (map point10 points))
     @ concat (map (shapeRecords K) after) @ dxfFooter"
  using assms
  by (simp add: convertToDxf_def shapeRecords_def wireRecord_def faceRecord_def
      firstPoints_map_filter Let_def)

lemma floor_rat_numeral: "\<lfloor>numeral a / numeral b :: rat\<rfloor> = numeral a div numeral b"
  using floor_divide_of_int_eq [of "numeral a" "numeral b", where ?'a = rat] by simp

lemmas show_double_defs =
  show_double_def show_general_def decimalExponent_def compute_floorlog roundHalfEven_def
  scaleBy_def to_string.simps withFraction_def stripZeros_def zeroPadded_def Let_def
  floor_rat_numeral

lemma show_double_0: "show_double (Fin 0) = ''0''"
  by (simp add: show_double_defs)

lemma show_double_1: "show_double (Fin 1) = ''1''"
  by (simp add: show_double_defs)

lemma show_double_2: "show_double (Fin 2) = ''2''"
  by (simp add: show_double_defs)

lemma openWire_records:
  "shapeRecords exampleKernel openWire =
     ''  0\<newline>LINE\<newline>  8\<newline>0\<newline> 10\<newline>0\<newline> 20\<newline>0\<newline> 30\<newline>0\<newline> 11\<newline>1\<newline> 21\<newline>0\<newline> 31\<newline>0\<newline>''
     @ ''  0\<newline>LINE\<newline>  8\<newline>0\<newline> 10\<newline>1\<newline> 20\<newline>0\<newline> 30\<newline>0\<newline> 11\<newline>1\<newline> 21\<newline>1\<newline> 31\<newline>0\<newline>''
     @ ''  0\<newline>LINE\<newline>  8\<newline>0\<newline> 10\<newline>1\<newline> 20\<newline>1\<newline> 30\<newline>0\<newline> 11\<newline>2\<newline> 21\<newline>1\<newline> 31\<newline>0\<newline>''
     @ ''  0\<newline>LWPOLYLINE\<newline>  8\<newline>0\<newline>  90\<newline>3\<newline>  70\<newline>1\<newline> 10\<newline>0\<newline> 20\<newline>0\<newline> 30\<newline>0\<newline> 10\<newline>1\<newline> 20\<newline>0\<newline> 30\<newline>0\<newline> 10\<newline>1\<newline> 20\<newline>1\<newline> 30\<newline>0\<newline>''"
  by (simp add: shapeRecords_def wireRecord_def faceRecord_def edgeRecord_def openWire_def
      exampleKernel_def lineValue_def point10_def point11_def to_string.simps
      show_double_0 show_double_1 show_double_2)

text \<open>For the wire without edges no \<open>LWPOLYLINE\<close> record is written.\<close>

lemma emptyWire_records: "convertToDxf exampleKernel [emptyWire] = dxfHeader @ dxfFooter"
  by (simp add: convertToDxf_def shapeRecords_def wireRecord_def faceRecord_def emptyWire_def
      exampleKernel_def)

text \<open>
  C9 fails on the code. The wire of three edges through (0,0,0), (1,0,0), (1,1,0) and
  (2,1,0) is open. The text written for it has the three lines, the last one ending at
  (2,1,0), and an \<open>LWPOLYLINE\<close> record that lists three points, without the vertex
  (2,1,0) the walk ends at, has the count 3 under code 90, and has 1 under code 70: the
  reader's test of bit 0 of that flag, its test for a closed polyline, succeeds on the
  entity read back.
\<close>

theorem convertToDxf_open_wire_written_closed:
  "ShapeType openWire = TopAbs_WIRE
   \<and> convertToDxf exampleKernel [openWire] =
       dxfHeader
       @ ''  0\<newline>LINE\<newline>  8\<newline>0\<newline> 10\<newline>0\<newline> 20\<newline>0\<newline> 30\<newline>0\<newline> 11\<newline>1\<newline> 21\<newline>0\<newline> 31\<newline>0\<newline>''
       @ ''  0\<newline>LINE\<newline>  8\<newline>0\<newline> 10\<newline>1\<newline> 20\<newline>0\<newline> 30\<newline>0\<newline> 11\<newline>1\<newline> 21\<newline>1\<newline> 31\<newline>0\<newline>''
       @ ''  0\<newline>LINE\<newline>  8\<newline>0\<newline> 10\<newline>1\<newline> 20\<newline>1\<newline> 30\<newline>0\<newline> 11\<newline>2\<newline> 21\<newline>1\<newline> 31\<newline>0\<newline>''
       @ ''  0\<newline>LWPOLYLINE\<newline>  8\<newline>0\<newline>  90\<newline>3\<newline>  70\<newline>1\<newline> 10\<newline>0\<newline> 20\<newline>0\<newline> 30\<newline>0\<newline> 10\<newline>1\<newline> 20\<newline>0\<newline> 30\<newline>0\<newline> 10\<newline>1\<newline> 20\<newline>1\<newline> 30\<newline>0\<newline>''
       @ dxfFooter
   \<and> parseDxfEntities (convertToDxf exampleKernel [openWire]) = Inr openWireEntities
   \<and> flagBit 0 (openWireEntities ! 11) = Inr True"
proof -
  have w: "ShapeType openWire = TopAbs_WIRE" by (simp add: openWire_def)
  have t: "convertToDxf exampleKernel [openWire] =
             dxfHeader @ shapeRecords exampleKernel openWire @ dxfFooter"
    by (simp add: convertToDxf_def)
  have p: "parseDxfEntities (dxfHeader @ shapeRecords exampleKernel openWire @ dxfFooter) =
             Inr openWireEntities"
    by (simp add: openWire_records dxfHeader_def dxfFooter_def parser_defs
      openWireEntities_def headerEntities_def footerEntities_def)
  have f: "flagBit 0 (openWireEntities ! 11) = Inr True"
    by (simp add: openWireEntities_def headerEntities_def flagBit_def find_code_def bindE_def
        stoi_def skipSign_def isspace_def isdigit_def digitsValue_def digitValue_def)
  from w t p f show ?thesis
    by (simp add: openWire_records)
qed

section \<open>Writing and reading back\<close>




































end
